theory Spec2Isabelle
  imports Complex_Main "HOL-Library.Word" "HOL-Library.Log_Nat" "HOL-Library.Char_ord"
    "HOL-Library.List_Lexorder"
begin

section \<open>Errors\<close>

text \<open>
  A Go \<^verbatim>\<open>error\<close> value: either a leaf made by \<^verbatim>\<open>errors.New\<close> or by
  \<^verbatim>\<open>fmt.Errorf\<close> without \<^verbatim>\<open>%w\<close>, or a message wrapped around a cause by
  \<^verbatim>\<open>fmt.Errorf("...: %w", err)\<close>.  \<^verbatim>\<open>errors.Unwrap\<close> and \<^verbatim>\<open>errors.Is\<close> walk the chain.
\<close>

datatype error = Errorf string | Wrap string error

fun errors_Unwrap :: "error \<Rightarrow> error option" where
  "errors_Unwrap (Errorf m) = None"
| "errors_Unwrap (Wrap p e) = Some e"

fun errors_Is :: "error \<Rightarrow> error \<Rightarrow> bool" where
  "errors_Is (Errorf m) target = (Errorf m = target)"
| "errors_Is (Wrap p e) target = (Wrap p e = target \<or> errors_Is e target)"

section \<open>types.go: identifiers\<close>

type_synonym int64 = "64 word"

definition DefaultPageSize :: int where "DefaultPageSize = 20"
definition MaxPageSize :: int where "MaxPageSize = 1000"

text \<open>The two implementations of the \<^verbatim>\<open>ID\<close> interface.\<close>

datatype ID = StringID string | Int64ID int64

subsection \<open>strconv.ParseInt(s, 10, 64)\<close>

text \<open>
  The standard library's parser, written out for base 10 and 64 bits.  \<^verbatim>\<open>ParseUint\<close>
  walks the bytes with an accumulator; a byte that is not a decimal digit is a syntax
  error, an accumulator that would leave 64 bits is a range error, reported at the byte
  where it happens.  The accumulator is a \<open>nat\<close> and the two overflow tests of the
  library (\<^verbatim>\<open>n >= cutoff\<close> before the multiplication, \<^verbatim>\<open>n1 < n || n1 > maxVal\<close> after
  the addition) are the two tests below.
\<close>

datatype NumError = ErrSyntax | ErrRange

definition is_digit :: "char \<Rightarrow> bool" where
  "is_digit c = (48 \<le> (of_char c :: nat) \<and> (of_char c :: nat) \<le> 57)"

definition digit_val :: "char \<Rightarrow> nat" where
  "digit_val c = of_char c - 48"

definition maxUint64 :: nat where "maxUint64 = 2 ^ 64 - 1"

fun ParseUint_loop :: "string \<Rightarrow> nat \<Rightarrow> NumError + nat" where
  "ParseUint_loop [] n = Inr n"
| "ParseUint_loop (c # cs) n =
     (if \<not> is_digit c then Inl ErrSyntax
      else if n \<ge> maxUint64 div 10 + 1 then Inl ErrRange
      else if n * 10 + digit_val c > maxUint64 then Inl ErrRange
      else ParseUint_loop cs (n * 10 + digit_val c))"

definition ParseUint :: "string \<Rightarrow> NumError + nat" where
  "ParseUint s = (if s = [] then Inl ErrSyntax else ParseUint_loop s 0)"

definition ParseInt :: "string \<Rightarrow> NumError + int64" where
  "ParseInt s =
     (if s = [] then Inl ErrSyntax
      else
        let neg = (hd s = CHR ''-'');
            s' = (if hd s = CHR ''+'' \<or> hd s = CHR ''-'' then tl s else s)
        in case ParseUint s' of
             Inl ErrSyntax \<Rightarrow> Inl ErrSyntax
           | Inl ErrRange \<Rightarrow> Inl ErrRange
           | Inr un \<Rightarrow>
               if \<not> neg \<and> un \<ge> 2 ^ 63 then Inl ErrRange
               else if neg \<and> un > 2 ^ 63 then Inl ErrRange
               else Inr (if neg then - word_of_nat un else word_of_nat un))"

subsection \<open>Methods of StringID and Int64ID\<close>

fun IsZero :: "ID \<Rightarrow> bool" where
  "IsZero (StringID s) = (s = [])"
| "IsZero (Int64ID i) = (i = 0)"

fun Int64 :: "ID \<Rightarrow> NumError + int64" where
  "Int64 (StringID s) = ParseInt s"
| "Int64 (Int64ID i) = Inr i"

text \<open>
  What it means for a string to be a base-10 numeral of a 64-bit signed integer: an
  optional sign, then at least one decimal digit and nothing else, denoting a value
  between \<open>-2^63\<close> and \<open>2^63 - 1\<close>.
\<close>

definition decimal_value :: "string \<Rightarrow> nat" where
  "decimal_value ds = foldl (\<lambda>n c. n * 10 + digit_val c) 0 ds"

definition numeral_value :: "string \<Rightarrow> int option" where
  "numeral_value s =
     (if s = [] then None
      else
        let neg = (hd s = CHR ''-'');
            ds = (if hd s = CHR ''+'' \<or> hd s = CHR ''-'' then tl s else s)
        in if ds = [] \<or> \<not> list_all is_digit ds then None
           else Some (if neg then - int (decimal_value ds) else int (decimal_value ds)))"

definition is_base10_int64 :: "string \<Rightarrow> bool" where
  "is_base10_int64 s =
     (case numeral_value s of None \<Rightarrow> False | Some v \<Rightarrow> - (2 ^ 63) \<le> v \<and> v < 2 ^ 63)"

section \<open>types.go: list and search requests\<close>

record ListRequest =
  Size :: int
  Page :: int
  SortBy :: string
  Order :: string
  Cursor :: string

definition SetDefaults :: "ListRequest \<Rightarrow> ListRequest" where
  "SetDefaults r = (if Size r = 0 then r\<lparr>Size := DefaultPageSize\<rparr> else r)"

definition order_message :: string where
  "order_message =
     ''order must be '' @ [CHR 0x27] @ ''asc'' @ [CHR 0x27] @ '' or '' @ [CHR 0x27] @ ''desc'' @ [CHR 0x27]"

text \<open>
  \<^verbatim>\<open>Validate\<close> has a pointer receiver and checks it for nil first; \<open>None\<close> is the nil
  pointer.  The result is the returned error, \<open>None\<close> for a nil error.
\<close>

definition Validate :: "ListRequest option \<Rightarrow> error option" where
  "Validate p =
     (case p of
        None \<Rightarrow> Some (Errorf ''list request cannot be nil'')
      | Some r \<Rightarrow>
          if Size r < 0 then Some (Errorf ''size cannot be negative'')
          else if Size r > MaxPageSize then Some (Errorf ''size cannot exceed 1000'')
          else if Page r < 0 then Some (Errorf ''page cannot be negative'')
          else if Order r \<noteq> [] \<and> Order r \<noteq> ''asc'' \<and> Order r \<noteq> ''desc''
            then Some (Errorf order_message)
          else None)"

text \<open>
  \<^verbatim>\<open>SearchRequest\<close>: the filters are a Go map from strings to arbitrary values, of which
  \<^verbatim>\<open>Validate\<close> only takes the length; \<open>'v\<close> is the type of the values.
\<close>

record 'v SearchRequest =
  Query :: string
  Filters :: "string \<rightharpoonup> 'v"
  SearchSize :: int
  SearchPage :: int
  SearchSortBy :: string
  SearchOrder :: string

definition SearchSetDefaults :: "'v SearchRequest \<Rightarrow> 'v SearchRequest" where
  "SearchSetDefaults r = (if SearchSize r = 0 then r\<lparr>SearchSize := DefaultPageSize\<rparr> else r)"

definition SearchValidate :: "'v SearchRequest option \<Rightarrow> error option" where
  "SearchValidate p =
     (case p of
        None \<Rightarrow> Some (Errorf ''search request cannot be nil'')
      | Some r \<Rightarrow>
          if Query r = [] \<and> dom (Filters r) = {}
            then Some (Errorf ''either query or filters must be provided'')
          else if SearchSize r < 0 then Some (Errorf ''size cannot be negative'')
          else if SearchSize r > MaxPageSize then Some (Errorf ''size cannot exceed 1000'')
          else if SearchPage r < 0 then Some (Errorf ''page cannot be negative'')
          else if SearchOrder r \<noteq> [] \<and> SearchOrder r \<noteq> ''asc'' \<and> SearchOrder r \<noteq> ''desc''
            then Some (Errorf order_message)
          else None)"

subsection \<open>strconv.FormatInt(i, 10) and the String methods\<close>

text \<open>The digits of a number that is not negative, and of any integer.\<close>

function FormatUint :: "int \<Rightarrow> string" where
  "FormatUint n =
     (if n < 10 then [char_of (48 + n)]
      else FormatUint (n div 10) @ [char_of (48 + n mod 10)])"
  by pat_completeness auto
termination
  by (relation "measure nat") simp_all

declare FormatUint.simps [simp del]

definition FormatInt :: "int \<Rightarrow> string" where
  "FormatInt i = (if i < 0 then CHR ''-'' # FormatUint (- i) else FormatUint i)"

fun String :: "ID \<Rightarrow> string" where
  "String (StringID s) = s"
| "String (Int64ID i) = FormatInt (sint i)"

section \<open>The generic service\<close>

text \<open>
  The storage abstraction \<^verbatim>\<open>Repository[T]\<close>, as far as \<^verbatim>\<open>Update\<close> and \<^verbatim>\<open>List\<close>
  use it.  A storage operation takes the store, of type \<open>'s\<close>, and returns its result
  with the store it leaves behind.  \<open>'m\<close> is the domain model \<^verbatim>\<open>T\<close>.
\<close>

record ('s, 'm) Repository =
  repo_GetByID :: "'s \<Rightarrow> ID \<Rightarrow> (error + 'm) \<times> 's"
  repo_Update :: "'s \<Rightarrow> 'm \<Rightarrow> (error + 'm) \<times> 's"
  repo_List :: "'s \<Rightarrow> ListRequest \<Rightarrow> (error + 'm list \<times> int) \<times> 's"

text \<open>The storage calls a service method makes, in order, with their arguments.\<close>

datatype 'm repo_call = CallGetByID ID | CallUpdate 'm | CallList ListRequest

text \<open>
  An update request \<^verbatim>\<open>UR\<close>: its \<^verbatim>\<open>Validate\<close> result and its
  \<^verbatim>\<open>ApplyToDomainModel\<close>, whose result is \<open>None\<close> when the returned
  \<^verbatim>\<open>DomainModel\<close> is not a \<^verbatim>\<open>T\<close>, so that the type assertion \<^verbatim>\<open>.(T)\<close> fails.
\<close>

record 'm UpdateRequest =
  ur_Validate :: "error option"
  ApplyToDomainModel :: "'m \<Rightarrow> 'm option"

record ('m, 'r, 'lr) Converters =
  ToResponse :: "'m \<Rightarrow> 'r"
  ToListResponse :: "'m list \<Rightarrow> int \<Rightarrow> int \<Rightarrow> int \<Rightarrow> 'lr"

record ('s, 'm, 'r, 'lr) BaseGenericDomainService =
  repo :: "('s, 'm) Repository"
  conv :: "('m, 'r, 'lr) Converters"
  SetID :: "'m \<Rightarrow> ID \<Rightarrow> 'm"

text \<open>
  A service method returns its result, the storage calls it made and the store after
  them.
\<close>

definition Update ::
  "('s, 'm, 'r, 'lr) BaseGenericDomainService \<Rightarrow> 's \<Rightarrow> ID \<Rightarrow> 'm UpdateRequest
     \<Rightarrow> (error + 'r) \<times> 'm repo_call list \<times> 's" where
  "Update s st eid req =
     (if IsZero eid then (Inl (Errorf (''invalid ID: '' @ String eid)), [], st)
      else case ur_Validate req of
        Some err \<Rightarrow> (Inl (Wrap ''validation failed'' err), [], st)
      | None \<Rightarrow>
          (case repo_GetByID (repo s) st eid of
             (Inl err, st1) \<Rightarrow>
               (Inl (Wrap ''failed to get existing model'' err), [CallGetByID eid], st1)
           | (Inr existing, st1) \<Rightarrow>
               (case ApplyToDomainModel req existing of
                  None \<Rightarrow>
                    (Inl (Errorf
                       ''type assertion failed: cannot convert updated model to domain model''),
                     [CallGetByID eid], st1)
                | Some updated0 \<Rightarrow>
                    let updated = SetID s updated0 eid in
                    (case repo_Update (repo s) st1 updated of
                       (Inl err, st2) \<Rightarrow>
                         (Inl (Wrap ''failed to update'' err),
                          [CallGetByID eid, CallUpdate updated], st2)
                     | (Inr result, st2) \<Rightarrow>
                         (Inr (ToResponse (conv s) result),
                          [CallGetByID eid, CallUpdate updated], st2)))))"

definition List ::
  "('s, 'm, 'r, 'lr) BaseGenericDomainService \<Rightarrow> 's \<Rightarrow> int \<Rightarrow> int \<Rightarrow> string \<Rightarrow> string
     \<Rightarrow> (error + 'lr) \<times> 'm repo_call list \<times> 's" where
  "List s st page0 size0 sortBy order =
     (let size = (if size0 \<le> 0 \<or> size0 > MaxPageSize then DefaultPageSize else size0);
          page = (if page0 < 0 then 0 else page0);
          req = \<lparr>Size = size, Page = page, SortBy = sortBy, Order = order, Cursor = []\<rparr>
      in case repo_List (repo s) st req of
           (Inl err, st1) \<Rightarrow> (Inl (Wrap ''failed to list'' err), [CallList req], st1)
         | (Inr (models, n), st1) \<Rightarrow>
             (Inr (ToListResponse (conv s) models n page size), [CallList req], st1))"


text \<open>
  A storage with no entity in it, for the examples: every fetch fails with
  \<^verbatim>\<open>ErrNotFound\<close>; the store counts the updates it has received.
\<close>

definition ErrNotFound :: error where
  "ErrNotFound = Errorf ''entity not found''"

definition missing_service :: "(nat, nat, nat, nat list) BaseGenericDomainService" where
  "missing_service =
     \<lparr>repo = \<lparr>repo_GetByID = (\<lambda>st i. (Inl ErrNotFound, st)),
               repo_Update = (\<lambda>st m. (Inr m, Suc st)),
               repo_List = (\<lambda>st r. (Inr ([], 0), st))\<rparr>,
      conv = \<lparr>ToResponse = (\<lambda>m. m), ToListResponse = (\<lambda>ms n p sz. ms)\<rparr>,
      SetID = (\<lambda>m i. m)\<rparr>"

text \<open>
  A storage that keeps every list request it receives, for the examples; its list
  response is the page and the size it was converted with.
\<close>

definition recording_service ::
  "(ListRequest list, nat, nat, int \<times> int) BaseGenericDomainService" where
  "recording_service =
     \<lparr>repo = \<lparr>repo_GetByID = (\<lambda>st i. (Inl ErrNotFound, st)),
               repo_Update = (\<lambda>st m. (Inr m, st)),
               repo_List = (\<lambda>st r. (Inr ([], 0), st @ [r]))\<rparr>,
      conv = \<lparr>ToResponse = (\<lambda>m. m), ToListResponse = (\<lambda>ms n p sz. (p, sz))\<rparr>,
      SetID = (\<lambda>m i. m)\<rparr>"

section \<open>The standard library, as far as the code uses it\<close>

text \<open>
  Three library functions are parameters of the model, collected in a record that the
  functions below take as their first argument:
  \<^item> \<^verbatim>\<open>strconv.FormatFloat(f, 'f' or 'e', -1, 64)\<close>, the shortest decimal numeral that
    parses back to \<open>f\<close>, which \<^verbatim>\<open>json.Marshal\<close> writes for a \<^verbatim>\<open>float64\<close>;
  \<^item> \<^verbatim>\<open>strings.ToLower\<close>;
  \<^item> the conversion \<^verbatim>\<open>int64(f)\<close> of a \<^verbatim>\<open>float64\<close> that is not a number or whose
    integral part does not fit 64 bits, which the language leaves to the implementation.
\<close>

datatype float64 = Finite rat | PosInf | NegInf | NaN

record stdlib =
  FormatFloat :: "rat \<Rightarrow> string"
  ToLower :: "string \<Rightarrow> string"
  out_of_range_int64 :: "float64 \<Rightarrow> int64"

subsection \<open>float64\<close>

text \<open>
  A finite \<^verbatim>\<open>float64\<close> is the rational it denotes (the two zeros are one value, as
  they are for \<^verbatim>\<open>==\<close>).  \<open>round_float64\<close> rounds a rational to the nearest number
  \<open>m * 2^e\<close> with \<open>m < 2^53\<close> and \<open>e \<ge> -1074\<close>, ties to the even \<open>m\<close>, which is what
  \<^verbatim>\<open>strconv.ParseFloat\<close> and the conversion \<^verbatim>\<open>float64(i)\<close> do.
\<close>

definition ilog2 :: "rat \<Rightarrow> int" where
  "ilog2 q =
     (let (a, b) = quotient_of \<bar>q\<bar>; l = bitlen a - bitlen b
      in if 2 powi l \<le> \<bar>q\<bar> then l else l - 1)"

definition round_half_even :: "rat \<Rightarrow> int" where
  "round_half_even q =
     (let f = \<lfloor>q\<rfloor>; d = q - of_int f
      in if d < 1 / 2 then f else if d > 1 / 2 then f + 1 else if even f then f else f + 1)"

definition round_float64 :: "rat \<Rightarrow> rat" where
  "round_float64 q =
     (if q = 0 then 0
      else let e = max (ilog2 q - 52) (- 1074)
           in sgn q * of_int (round_half_even (\<bar>q\<bar> / 2 powi e)) * 2 powi e)"

definition float64_of_int64 :: "int64 \<Rightarrow> float64" where
  "float64_of_int64 i = Finite (round_float64 (of_int (sint i)))"

definition trunc_toward_zero :: "rat \<Rightarrow> int" where
  "trunc_toward_zero q = (if q < 0 then - \<lfloor>- q\<rfloor> else \<lfloor>q\<rfloor>)"

definition int64_of_float64 :: "stdlib \<Rightarrow> float64 \<Rightarrow> int64" where
  "int64_of_float64 L f =
     (case f of
        Finite q \<Rightarrow>
          if - (2 ^ 63) \<le> trunc_toward_zero q \<and> trunc_toward_zero q < 2 ^ 63 then word_of_int (trunc_toward_zero q)
          else out_of_range_int64 L f
      | _ \<Rightarrow> out_of_range_int64 L f)"

text \<open>The comparison \<^verbatim>\<open>==\<close> of two \<^verbatim>\<open>float64\<close>.\<close>

definition float64_eq :: "float64 \<Rightarrow> float64 \<Rightarrow> bool" where
  "float64_eq f g = (f \<noteq> NaN \<and> g \<noteq> NaN \<and> f = g)"

subsection \<open>Number literals\<close>

text \<open>
  A JSON number literal: an optional minus sign, the integer digits (a single 0, or
  digits not starting with 0), an optional fraction, an optional exponent.
  \<open>scan_number\<close> splits the longest literal off the front of a text and returns its
  parts.
\<close>

record number_parts =
  np_neg :: bool
  np_int :: string
  np_frac :: string
  np_exp_neg :: bool
  np_exp :: string

definition scan_number :: "string \<Rightarrow> (number_parts \<times> string) option" where
  "scan_number s =
     (let neg = (s \<noteq> [] \<and> hd s = CHR ''-'');
          s1 = (if neg then tl s else s);
          ip = takeWhile is_digit s1;
          s2 = dropWhile is_digit s1
      in if ip = [] \<or> (hd ip = CHR ''0'' \<and> tl ip \<noteq> []) then None
         else
           let has_frac = (s2 \<noteq> [] \<and> hd s2 = CHR ''.'');
               fp = (if has_frac then takeWhile is_digit (tl s2) else []);
               s3 = (if has_frac then dropWhile is_digit (tl s2) else s2)
           in if has_frac \<and> fp = [] then None
              else
                let has_exp = (s3 \<noteq> [] \<and> (hd s3 = CHR ''e'' \<or> hd s3 = CHR ''E''));
                    s4 = (if has_exp then tl s3 else s3);
                    has_sign = (has_exp \<and> s4 \<noteq> [] \<and> (hd s4 = CHR ''+'' \<or> hd s4 = CHR ''-''));
                    eneg = (has_sign \<and> hd s4 = CHR ''-'');
                    s5 = (if has_sign then tl s4 else s4);
                    ep = (if has_exp then takeWhile is_digit s5 else []);
                    s6 = (if has_exp then dropWhile is_digit s5 else s3)
                in if has_exp \<and> ep = [] then None
                   else Some (\<lparr>np_neg = neg, np_int = ip, np_frac = fp,
                                np_exp_neg = eneg, np_exp = ep\<rparr>, s6))"

definition digits_value :: "string \<Rightarrow> int" where
  "digits_value ds = foldl (\<lambda>n c. n * 10 + int (digit_val c)) 0 ds"

definition parts_value :: "number_parts \<Rightarrow> rat" where
  "parts_value p =
     (let m = of_int (digits_value (np_int p @ np_frac p)) / 10 ^ length (np_frac p);
          e = (if np_exp_neg p then - digits_value (np_exp p) else digits_value (np_exp p))
      in (if np_neg p then - m else m) * 10 powi e)"

text \<open>
  \<^verbatim>\<open>strconv.ParseFloat(literal, 64)\<close> on a JSON number literal: the nearest
  \<^verbatim>\<open>float64\<close>, or an error when that is beyond the largest finite one, which is
  when the rounded value has reached \<open>2^1024\<close>, that is, when its binary logarithm is
  at least 1024.
\<close>

definition ParseFloat :: "string \<Rightarrow> float64 option" where
  "ParseFloat lit =
     (case scan_number lit of
        Some (p, []) \<Rightarrow>
          let r = round_float64 (parts_value p)
          in if ilog2 r \<ge> 1024 then None else Some (Finite r)
      | _ \<Rightarrow> None)"

subsection \<open>UTF-8\<close>

text \<open>
  \<open>utf8_width s\<close> is the number of bytes of the well-formed UTF-8 sequence at the front
  of \<open>s\<close>, and 0 when there is none (\<^verbatim>\<open>utf8.DecodeRuneInString\<close> returning
  \<^verbatim>\<open>RuneError\<close> with width 1).
\<close>

definition byte_in :: "nat \<Rightarrow> nat \<Rightarrow> char \<Rightarrow> bool" where
  "byte_in lo hi c = (lo \<le> of_char c \<and> (of_char c :: nat) \<le> hi)"

definition utf8_width :: "string \<Rightarrow> nat" where
  "utf8_width s =
     (case s of
        [] \<Rightarrow> 0
      | b0 # bs \<Rightarrow>
          if byte_in 0x00 0x7F b0 then 1
          else if byte_in 0xC2 0xDF b0 then
            (case bs of b1 # _ \<Rightarrow> if byte_in 0x80 0xBF b1 then 2 else 0 | _ \<Rightarrow> 0)
          else if byte_in 0xE0 0xEF b0 then
            (case bs of
               b1 # b2 # _ \<Rightarrow>
                 if byte_in (if b0 = char_of (0xE0 :: nat) then 0xA0 else 0x80)
                            (if b0 = char_of (0xED :: nat) then 0x9F else 0xBF) b1
                    \<and> byte_in 0x80 0xBF b2 then 3 else 0
             | _ \<Rightarrow> 0)
          else if byte_in 0xF0 0xF4 b0 then
            (case bs of
               b1 # b2 # b3 # _ \<Rightarrow>
                 if byte_in (if b0 = char_of (0xF0 :: nat) then 0x90 else 0x80)
                            (if b0 = char_of (0xF4 :: nat) then 0x8F else 0xBF) b1
                    \<and> byte_in 0x80 0xBF b2 \<and> byte_in 0x80 0xBF b3 then 4 else 0
             | _ \<Rightarrow> 0)
          else 0)"

definition RuneError_utf8 :: string where
  "RuneError_utf8 = [char_of (0xEF :: nat), char_of (0xBF :: nat), char_of (0xBD :: nat)]"

text \<open>
  What \<^verbatim>\<open>encoding/json\<close> makes of a Go string: every byte that is not part of a
  well-formed sequence becomes U+FFFD.
\<close>

function coerce_utf8 :: "string \<Rightarrow> string" where
  "coerce_utf8 [] = []"
| "coerce_utf8 (b # bs) =
     (if utf8_width (b # bs) = 0 then RuneError_utf8 @ coerce_utf8 bs
      else b # take (utf8_width (b # bs) - 1) bs
             @ coerce_utf8 (drop (utf8_width (b # bs) - 1) bs))"
  by pat_completeness auto
termination
  by (relation "measure length") simp_all

definition valid_utf8 :: "string \<Rightarrow> bool" where
  "valid_utf8 s = (coerce_utf8 s = s)"


section \<open>encoding/json on dynamic values\<close>

text \<open>
  The Go values an \<^verbatim>\<open>any\<close> holds here: nil, a bool, a string, an \<^verbatim>\<open>int64\<close>, a
  \<^verbatim>\<open>float64\<close>, a slice \<^verbatim>\<open>[]any\<close>, a map \<^verbatim>\<open>map[string]any\<close> (a list of entries with
  distinct keys), and \<open>AFunc\<close> for a value of a kind \<^verbatim>\<open>json.Marshal\<close> rejects (a function,
  a channel).
\<close>

datatype go_any =
    ANil
  | ABool bool
  | AString string
  | AInt64 int64
  | AFloat64 float64
  | ASlice "go_any list"
  | AMap "(string \<times> go_any) list"
  | AFunc

text \<open>A JSON value; a number keeps the text of its literal, as the decoder does.\<close>

datatype json =
    JNull
  | JBool bool
  | JNumber string
  | JString string
  | JArray "json list"
  | JObject "(string \<times> json) list"

definition UnsupportedTypeError :: error where
  "UnsupportedTypeError = Errorf ''json: unsupported type''"

definition UnsupportedValueError :: error where
  "UnsupportedValueError = Errorf ''json: unsupported value''"

definition SyntaxError :: error where
  "SyntaxError = Errorf ''json: syntax error''"

definition UnmarshalTypeError :: error where
  "UnmarshalTypeError = Errorf ''json: cannot unmarshal value into Go value''"

fun collect :: "(error + 'a) list \<Rightarrow> error + 'a list" where
  "collect [] = Inr []"
| "collect (Inl e # xs) = Inl e"
| "collect (Inr v # xs) = (case collect xs of Inl e \<Rightarrow> Inl e | Inr vs \<Rightarrow> Inr (v # vs))"

definition with_key :: "'k \<Rightarrow> error + 'a \<Rightarrow> error + 'k \<times> 'a" where
  "with_key k r = (case r of Inl e \<Rightarrow> Inl e | Inr v \<Rightarrow> Inr (k, v))"

text \<open>
  \<^verbatim>\<open>json.Marshal\<close> of a dynamic value, up to the JSON value written: strings are coerced
  to UTF-8, an \<^verbatim>\<open>int64\<close> is written in decimal, a \<^verbatim>\<open>float64\<close> by
  \<^verbatim>\<open>FormatFloat\<close> unless it is infinite or not a number, the entries of a map sorted by
  key.
\<close>

fun marshal_any :: "stdlib \<Rightarrow> go_any \<Rightarrow> error + json" where
  "marshal_any L ANil = Inr JNull"
| "marshal_any L (ABool b) = Inr (JBool b)"
| "marshal_any L (AString s) = Inr (JString (coerce_utf8 s))"
| "marshal_any L (AInt64 i) = Inr (JNumber (FormatInt (sint i)))"
| "marshal_any L (AFloat64 f) =
     (case f of Finite q \<Rightarrow> Inr (JNumber (FormatFloat L q)) | _ \<Rightarrow> Inl UnsupportedValueError)"
| "marshal_any L (ASlice xs) =
     (case collect (map (marshal_any L) xs) of Inl e \<Rightarrow> Inl e | Inr js \<Rightarrow> Inr (JArray js))"
| "marshal_any L (AMap kvs) =
     (case collect (map (\<lambda>kv. with_key (fst kv) (marshal_any L (snd kv))) kvs) of
        Inl e \<Rightarrow> Inl e
      | Inr es \<Rightarrow> Inr (JObject (map (\<lambda>kj. (coerce_utf8 (fst kj), snd kj)) (sort_key fst es))))"
| "marshal_any L AFunc = Inl UnsupportedTypeError"

text \<open>Storing under a key of a Go map: the last value stored under a key is kept.\<close>

fun store :: "'k \<Rightarrow> 'v \<Rightarrow> ('k \<times> 'v) list \<Rightarrow> ('k \<times> 'v) list" where
  "store k v [] = [(k, v)]"
| "store k v (p # ps) = (if fst p = k then (k, v) # ps else p # store k v ps)"

definition to_map :: "('k \<times> 'v) list \<Rightarrow> ('k \<times> 'v) list" where
  "to_map kvs = foldl (\<lambda>m kv. store (fst kv) (snd kv) m) [] kvs"

text \<open>
  \<^verbatim>\<open>json.Unmarshal\<close> into an \<^verbatim>\<open>any\<close>: null gives nil, a number a \<^verbatim>\<open>float64\<close> (an
  error when the literal is out of range), an array a slice, an object a map.
\<close>

fun unmarshal_any :: "json \<Rightarrow> error + go_any" where
  "unmarshal_any JNull = Inr ANil"
| "unmarshal_any (JBool b) = Inr (ABool b)"
| "unmarshal_any (JNumber lit) =
     (case ParseFloat lit of None \<Rightarrow> Inl UnmarshalTypeError | Some f \<Rightarrow> Inr (AFloat64 f))"
| "unmarshal_any (JString s) = Inr (AString s)"
| "unmarshal_any (JArray js) =
     (case collect (map unmarshal_any js) of Inl e \<Rightarrow> Inl e | Inr xs \<Rightarrow> Inr (ASlice xs))"
| "unmarshal_any (JObject kjs) =
     (case collect (map (\<lambda>kj. with_key (fst kj) (unmarshal_any (snd kj))) kjs) of
        Inl e \<Rightarrow> Inl e
      | Inr kvs \<Rightarrow> Inr (AMap (to_map kvs)))"

text \<open>
  The decoder finds the struct field of an object key by the field's JSON name, ignoring
  case: ASCII letters fold, and so do the Kelvin sign (to k) and the long s (to s).
\<close>

function fold_key :: "string \<Rightarrow> string" where
  "fold_key [] = []"
| "fold_key (c # cs) =
     (if take 3 (c # cs) = [char_of (0xE2 :: nat), char_of (0x84 :: nat), char_of (0xAA :: nat)]
        then CHR ''k'' # fold_key (drop 2 cs)
      else if take 2 (c # cs) = [char_of (0xC5 :: nat), char_of (0xBF :: nat)]
        then CHR ''s'' # fold_key (drop 1 cs)
      else (if byte_in 0x41 0x5A c then char_of (of_char c + (32 :: nat)) else c) # fold_key cs)"
  by pat_completeness auto
termination
  by (relation "measure length") simp_all

section \<open>cursor.go\<close>

record Cursor =
  ID :: go_any
  Value :: go_any

text \<open>
  \<^verbatim>\<open>json.Marshal\<close> of a \<^verbatim>\<open>Cursor\<close>: the member "id", and the member "value" unless the
  value is nil (\<^verbatim>\<open>omitempty\<close>).
\<close>

definition marshal_Cursor :: "stdlib \<Rightarrow> Cursor \<Rightarrow> error + json" where
  "marshal_Cursor L c =
     (case marshal_any L (ID c) of
        Inl e \<Rightarrow> Inl e
      | Inr i \<Rightarrow>
          if Value c = ANil then Inr (JObject [(''id'', i)])
          else (case marshal_any L (Value c) of
                  Inl e \<Rightarrow> Inl e
                | Inr v \<Rightarrow> Inr (JObject [(''id'', i), (''value'', v)])))"

text \<open>
  \<^verbatim>\<open>json.Unmarshal\<close> into a zero \<^verbatim>\<open>Cursor\<close>: null leaves it as it is, an object sets
  the fields its keys name, in the order of the text, and any other value is an error.
\<close>

definition set_member :: "Cursor \<Rightarrow> string \<times> json \<Rightarrow> error + Cursor" where
  "set_member c kj =
     (if fold_key (fst kj) = ''id'' then
        (case unmarshal_any (snd kj) of Inl e \<Rightarrow> Inl e | Inr v \<Rightarrow> Inr (c\<lparr>ID := v\<rparr>))
      else if fold_key (fst kj) = ''value'' then
        (case unmarshal_any (snd kj) of Inl e \<Rightarrow> Inl e | Inr v \<Rightarrow> Inr (c\<lparr>Value := v\<rparr>))
      else Inr c)"

fun set_members :: "Cursor \<Rightarrow> (string \<times> json) list \<Rightarrow> error + Cursor" where
  "set_members c [] = Inr c"
| "set_members c (kj # kjs) =
     (case set_member c kj of Inl e \<Rightarrow> Inl e | Inr c' \<Rightarrow> set_members c' kjs)"

definition unmarshal_Cursor :: "json \<Rightarrow> error + Cursor" where
  "unmarshal_Cursor j =
     (case j of
        JNull \<Rightarrow> Inr \<lparr>ID = ANil, Value = ANil\<rparr>
      | JObject kjs \<Rightarrow> set_members \<lparr>ID = ANil, Value = ANil\<rparr> kjs
      | _ \<Rightarrow> Inl UnmarshalTypeError)"

definition normalizeJSONNumber :: "stdlib \<Rightarrow> go_any \<Rightarrow> go_any" where
  "normalizeJSONNumber L v =
     (case v of
        AFloat64 f \<Rightarrow>
          if float64_eq f (float64_of_int64 (int64_of_float64 L f))
          then AInt64 (int64_of_float64 L f) else v
      | _ \<Rightarrow> v)"


subsection \<open>JSON text: writing\<close>

definition hex_digit :: "nat \<Rightarrow> char" where
  "hex_digit n = ''0123456789abcdef'' ! n"

text \<open>
  The escapes \<^verbatim>\<open>json.Marshal\<close> writes inside a string: the quote and the backslash,
  the short forms of five control characters, \<^verbatim>\<open>\u00XX\<close> for the other control
  characters and for \<^verbatim>\<open><\<close>, \<^verbatim>\<open>>\<close> and \<^verbatim>\<open>&\<close>, and a \<^verbatim>\<open>\u\<close> escape for each of the
  two line separators.
\<close>

definition escape_byte :: "char \<Rightarrow> string" where
  "escape_byte c =
     (if c = CHR 0x22 then [CHR 0x5C, CHR 0x22]
      else if c = CHR 0x5C then [CHR 0x5C, CHR 0x5C]
      else if c = CHR 0x08 then [CHR 0x5C, CHR ''b'']
      else if c = CHR 0x0C then [CHR 0x5C, CHR ''f'']
      else if c = CHR 0x0A then [CHR 0x5C, CHR ''n'']
      else if c = CHR 0x0D then [CHR 0x5C, CHR ''r'']
      else if c = CHR 0x09 then [CHR 0x5C, CHR ''t'']
      else if (of_char c :: nat) < 0x20 \<or> c = CHR ''<'' \<or> c = CHR ''>'' \<or> c = CHR ''&''
        then [CHR 0x5C, CHR ''u'', CHR ''0'', CHR ''0'',
              hex_digit (of_char c div 16), hex_digit (of_char c mod 16)]
      else [c])"

definition line_separator :: "string \<Rightarrow> char option" where
  "line_separator s =
     (if take 3 s = [char_of (0xE2 :: nat), char_of (0x80 :: nat), char_of (0xA8 :: nat)]
        then Some CHR ''8''
      else if take 3 s = [char_of (0xE2 :: nat), char_of (0x80 :: nat), char_of (0xA9 :: nat)]
        then Some CHR ''9''
      else None)"

function escape :: "string \<Rightarrow> string" where
  "escape [] = []"
| "escape (c # cs) =
     (case line_separator (c # cs) of
        Some d \<Rightarrow> [CHR 0x5C, CHR ''u'', CHR ''2'', CHR ''0'', CHR ''2'', d] @ escape (drop 2 cs)
      | None \<Rightarrow> escape_byte c @ escape cs)"
  by pat_completeness auto
termination
  by (relation "measure length") simp_all

definition quote :: "string \<Rightarrow> string" where
  "quote s = CHR 0x22 # escape s @ [CHR 0x22]"

fun commas :: "string list \<Rightarrow> string" where
  "commas [] = []"
| "commas [x] = x"
| "commas (x # y # ys) = x @ CHR '','' # commas (y # ys)"

fun render :: "json \<Rightarrow> string" where
  "render JNull = ''null''"
| "render (JBool b) = (if b then ''true'' else ''false'')"
| "render (JNumber lit) = lit"
| "render (JString s) = quote s"
| "render (JArray js) = CHR ''['' # commas (map render js) @ '']''"
| "render (JObject kjs) =
     CHR ''{'' # commas (map (\<lambda>kj. quote (fst kj) @ CHR '':'' # render (snd kj)) kjs) @ ''}''"

subsection \<open>JSON text: reading\<close>

text \<open>
  The decoder reads the text byte by byte, as the library's scanner does.  The first
  pass makes tokens; inside a string it undoes the escapes (a \<^verbatim>\<open>\u\<close> escape of a high
  surrogate waits for the low one that must follow at once, and a surrogate without
  its partner becomes U+FFFD), and the finished string is coerced to UTF-8.
\<close>

datatype token =
    TLBrace | TRBrace | TLBracket | TRBracket | TColon | TComma
  | TString string | TNumber string | TTrue | TFalse | TNull

datatype lex_mode =
    LNormal
  | LString string "nat option"
  | LEscape string "nat option"
  | LUnicode string "nat option" "nat list"
  | LNumber string
  | LLiteral token string
  | LError

definition utf8_encode :: "nat \<Rightarrow> string" where
  "utf8_encode r =
     (if r < 0x80 then [char_of r]
      else if r < 0x800 then [char_of (0xC0 + r div 64), char_of (0x80 + r mod 64)]
      else if r < 0x10000 then
        [char_of (0xE0 + r div 4096), char_of (0x80 + r div 64 mod 64), char_of (0x80 + r mod 64)]
      else
        [char_of (0xF0 + r div 262144), char_of (0x80 + r div 4096 mod 64),
         char_of (0x80 + r div 64 mod 64), char_of (0x80 + r mod 64)])"

definition hex_value :: "char \<Rightarrow> nat option" where
  "hex_value c =
     (if byte_in 0x30 0x39 c then Some (of_char c - 0x30)
      else if byte_in 0x61 0x66 c then Some (of_char c - 0x57)
      else if byte_in 0x41 0x46 c then Some (of_char c - 0x37)
      else None)"

definition flush :: "nat option \<Rightarrow> string \<Rightarrow> string" where
  "flush pending acc = (case pending of None \<Rightarrow> acc | Some h \<Rightarrow> acc @ RuneError_utf8)"

definition unescape :: "char \<Rightarrow> char option" where
  "unescape c =
     (if c = CHR 0x22 \<or> c = CHR 0x5C \<or> c = CHR ''/'' then Some c
      else if c = CHR ''b'' then Some (CHR 0x08)
      else if c = CHR ''f'' then Some (CHR 0x0C)
      else if c = CHR ''n'' then Some (CHR 0x0A)
      else if c = CHR ''r'' then Some (CHR 0x0D)
      else if c = CHR ''t'' then Some (CHR 0x09)
      else None)"

text \<open>The rune of a finished \<^verbatim>\<open>\uXXXX\<close> escape, after a pending high surrogate or not.\<close>

definition add_rune :: "string \<Rightarrow> nat option \<Rightarrow> nat \<Rightarrow> lex_mode" where
  "add_rune acc pending r =
     (if pending \<noteq> None \<and> 0xDC00 \<le> r \<and> r < 0xE000 then
        LString (acc @ utf8_encode (0x10000 + (the pending - 0xD800) * 1024 + (r - 0xDC00))) None
      else if 0xD800 \<le> r \<and> r < 0xDC00 then LString (flush pending acc) (Some r)
      else if 0xDC00 \<le> r \<and> r < 0xE000 then LString (flush pending acc @ RuneError_utf8) None
      else LString (flush pending acc @ utf8_encode r) None)"

definition is_number_char :: "char \<Rightarrow> bool" where
  "is_number_char c =
     (is_digit c \<or> c = CHR ''-'' \<or> c = CHR ''+'' \<or> c = CHR ''.'' \<or> c = CHR ''e'' \<or> c = CHR ''E'')"

definition is_literal :: "string \<Rightarrow> bool" where
  "is_literal lit = (case scan_number lit of Some (p, []) \<Rightarrow> True | _ \<Rightarrow> False)"

definition is_space :: "char \<Rightarrow> bool" where
  "is_space c = (c = CHR '' '' \<or> c = CHR 0x09 \<or> c = CHR 0x0A \<or> c = CHR 0x0D)"

definition lex_normal :: "token list \<Rightarrow> char \<Rightarrow> lex_mode \<times> token list" where
  "lex_normal ts c =
     (if is_space c then (LNormal, ts)
      else if c = CHR ''{'' then (LNormal, TLBrace # ts)
      else if c = CHR ''}'' then (LNormal, TRBrace # ts)
      else if c = CHR ''['' then (LNormal, TLBracket # ts)
      else if c = CHR '']'' then (LNormal, TRBracket # ts)
      else if c = CHR '':'' then (LNormal, TColon # ts)
      else if c = CHR '','' then (LNormal, TComma # ts)
      else if c = CHR 0x22 then (LString [] None, ts)
      else if c = CHR ''-'' \<or> is_digit c then (LNumber [c], ts)
      else if c = CHR ''t'' then (LLiteral TTrue ''rue'', ts)
      else if c = CHR ''f'' then (LLiteral TFalse ''alse'', ts)
      else if c = CHR ''n'' then (LLiteral TNull ''ull'', ts)
      else (LError, ts))"

text \<open>One byte of the text; the tokens are collected in reverse.\<close>

definition lex_step :: "lex_mode \<times> token list \<Rightarrow> char \<Rightarrow> lex_mode \<times> token list" where
  "lex_step st c =
     (case st of (mode, ts) \<Rightarrow>
        (case mode of
           LNormal \<Rightarrow> lex_normal ts c
         | LString acc pending \<Rightarrow>
             if c = CHR 0x22 then (LNormal, TString (coerce_utf8 (flush pending acc)) # ts)
             else if c = CHR 0x5C then (LEscape acc pending, ts)
             else if (of_char c :: nat) < 0x20 then (LError, ts)
             else (LString (flush pending acc @ [c]) None, ts)
         | LEscape acc pending \<Rightarrow>
             if c = CHR ''u'' then (LUnicode acc pending [], ts)
             else (case unescape c of
                     Some d \<Rightarrow> (LString (flush pending acc @ [d]) None, ts)
                   | None \<Rightarrow> (LError, ts))
         | LUnicode acc pending hs \<Rightarrow>
             (case hex_value c of
                None \<Rightarrow> (LError, ts)
              | Some h \<Rightarrow>
                  if length hs < 3 then (LUnicode acc pending (hs @ [h]), ts)
                  else (add_rune acc pending (foldl (\<lambda>n d. n * 16 + d) 0 (hs @ [h])), ts))
         | LNumber lit \<Rightarrow>
             if is_number_char c then (LNumber (lit @ [c]), ts)
             else if is_literal lit then lex_normal (TNumber lit # ts) c
             else (LError, ts)
         | LLiteral t expected \<Rightarrow>
             (case expected of
                [] \<Rightarrow> (LError, ts)
              | e # es \<Rightarrow>
                  if c \<noteq> e then (LError, ts)
                  else if es = [] then (LNormal, t # ts)
                  else (LLiteral t es, ts))
         | LError \<Rightarrow> (LError, ts)))"

definition lex :: "string \<Rightarrow> token list option" where
  "lex s =
     (case foldl lex_step (LNormal, []) s of
        (LNormal, ts) \<Rightarrow> Some (rev ts)
      | (LNumber lit, ts) \<Rightarrow> if is_literal lit then Some (rev (TNumber lit # ts)) else None
      | _ \<Rightarrow> None)"

text \<open>
  The second pass builds the value from the tokens with a stack of the arrays and
  objects that are open, each with what it expects next.  The library refuses a
  nesting deeper than 10000.
\<close>

datatype expect = ValueOrClose | ValueOnly | CommaOrClose | KeyOrClose | KeyOnly
  | ColonOnly string | MemberValue string

datatype frame = FArray "json list" expect | FObject "(string \<times> json) list" expect

datatype parse_state = Parsing "frame list" "json option" | Failed

definition maxNestingDepth :: nat where
  "maxNestingDepth = 10000"

definition value_expected :: "frame list \<Rightarrow> json option \<Rightarrow> bool" where
  "value_expected stack result =
     (case stack of
        [] \<Rightarrow> result = None
      | FArray js e # fs \<Rightarrow> e = ValueOrClose \<or> e = ValueOnly
      | FObject kjs e # fs \<Rightarrow> (case e of MemberValue k \<Rightarrow> True | _ \<Rightarrow> False))"

definition put_value :: "json \<Rightarrow> frame list \<Rightarrow> json option \<Rightarrow> parse_state" where
  "put_value v stack result =
     (if \<not> value_expected stack result then Failed
      else case stack of
        [] \<Rightarrow> Parsing [] (Some v)
      | FArray js e # fs \<Rightarrow> Parsing (FArray (js @ [v]) CommaOrClose # fs) result
      | FObject kjs e # fs \<Rightarrow>
          (case e of
             MemberValue k \<Rightarrow> Parsing (FObject (kjs @ [(k, v)]) CommaOrClose # fs) result
           | _ \<Rightarrow> Failed))"

definition parse_token :: "frame list \<Rightarrow> json option \<Rightarrow> token \<Rightarrow> parse_state" where
  "parse_token stack result t =
     (case t of
        TLBracket \<Rightarrow>
          if value_expected stack result \<and> length stack < maxNestingDepth
          then Parsing (FArray [] ValueOrClose # stack) result else Failed
      | TLBrace \<Rightarrow>
          if value_expected stack result \<and> length stack < maxNestingDepth
          then Parsing (FObject [] KeyOrClose # stack) result else Failed
      | TRBracket \<Rightarrow>
          (case stack of
             FArray js e # fs \<Rightarrow>
               if e = ValueOrClose \<or> e = CommaOrClose then put_value (JArray js) fs result
               else Failed
           | _ \<Rightarrow> Failed)
      | TRBrace \<Rightarrow>
          (case stack of
             FObject kjs e # fs \<Rightarrow>
               if e = KeyOrClose \<or> e = CommaOrClose then put_value (JObject kjs) fs result
               else Failed
           | _ \<Rightarrow> Failed)
      | TComma \<Rightarrow>
          (case stack of
             FArray js e # fs \<Rightarrow>
               if e = CommaOrClose then Parsing (FArray js ValueOnly # fs) result else Failed
           | FObject kjs e # fs \<Rightarrow>
               if e = CommaOrClose then Parsing (FObject kjs KeyOnly # fs) result else Failed
           | _ \<Rightarrow> Failed)
      | TColon \<Rightarrow>
          (case stack of
             FObject kjs (ColonOnly k) # fs \<Rightarrow> Parsing (FObject kjs (MemberValue k) # fs) result
           | _ \<Rightarrow> Failed)
      | TString s \<Rightarrow>
          (case stack of
             FObject kjs KeyOrClose # fs \<Rightarrow> Parsing (FObject kjs (ColonOnly s) # fs) result
           | FObject kjs KeyOnly # fs \<Rightarrow> Parsing (FObject kjs (ColonOnly s) # fs) result
           | _ \<Rightarrow> put_value (JString s) stack result)
      | TNumber lit \<Rightarrow> put_value (JNumber lit) stack result
      | TTrue \<Rightarrow> put_value (JBool True) stack result
      | TFalse \<Rightarrow> put_value (JBool False) stack result
      | TNull \<Rightarrow> put_value JNull stack result)"

definition parse_step :: "parse_state \<Rightarrow> token \<Rightarrow> parse_state" where
  "parse_step st t = (case st of Failed \<Rightarrow> Failed | Parsing stack result \<Rightarrow> parse_token stack result t)"

definition parse :: "string \<Rightarrow> json option" where
  "parse s =
     (case lex s of
        None \<Rightarrow> None
      | Some ts \<Rightarrow>
          (case foldl parse_step (Parsing [] None) ts of
             Parsing [] (Some v) \<Rightarrow> Some v
           | _ \<Rightarrow> None))"

subsection \<open>base64.RawURLEncoding\<close>

definition encodeURL :: string where
  "encodeURL = ''ABCDEFGHIJKLMNOPQRSTUVWXYZabcdefghijklmnopqrstuvwxyz0123456789-_''"

definition enc6 :: "nat \<Rightarrow> char" where
  "enc6 n = encodeURL ! n"

definition dec6 :: "char \<Rightarrow> nat option" where
  "dec6 c =
     (if byte_in 0x41 0x5A c then Some (of_char c - 0x41)
      else if byte_in 0x61 0x7A c then Some (of_char c - 0x61 + 26)
      else if byte_in 0x30 0x39 c then Some (of_char c - 0x30 + 52)
      else if c = CHR ''-'' then Some 62
      else if c = CHR ''_'' then Some 63
      else None)"

fun encode_groups :: "nat list \<Rightarrow> nat list" where
  "encode_groups (a # b # c # bs) =
     a div 4 # (a mod 4 * 16 + b div 16) # (b mod 16 * 4 + c div 64) # c mod 64 # encode_groups bs"
| "encode_groups [a, b] = [a div 4, a mod 4 * 16 + b div 16, b mod 16 * 4]"
| "encode_groups [a] = [a div 4, a mod 4 * 16]"
| "encode_groups [] = []"

definition EncodeToString :: "string \<Rightarrow> string" where
  "EncodeToString src = map enc6 (encode_groups (map of_char src))"

text \<open>
  Decoding skips carriage returns and line feeds, fails on any other byte outside the
  alphabet (the padding character too) and on a last group of a single character, and
  ignores the unused low bits of a last group of two or three.
\<close>

definition CorruptInputError :: error where
  "CorruptInputError = Errorf ''illegal base64 data''"

fun decode_groups :: "nat list \<Rightarrow> nat list option" where
  "decode_groups (a # b # c # d # ns) =
     (case decode_groups ns of
        None \<Rightarrow> None
      | Some bs \<Rightarrow> Some ((a * 4 + b div 16) # (b mod 16 * 16 + c div 4) # (c mod 4 * 64 + d) # bs))"
| "decode_groups [a, b, c] = Some [a * 4 + b div 16, b mod 16 * 16 + c div 4]"
| "decode_groups [a, b] = Some [a * 4 + b div 16]"
| "decode_groups [a] = None"
| "decode_groups [] = Some []"

definition DecodeString :: "string \<Rightarrow> error + string" where
  "DecodeString s =
     (let cs = filter (\<lambda>c. c \<noteq> CHR 0x0A \<and> c \<noteq> CHR 0x0D) s
      in if \<exists>c \<in> set cs. dec6 c = None then Inl CorruptInputError
         else case decode_groups (map (\<lambda>c. the (dec6 c)) cs) of
                None \<Rightarrow> Inl CorruptInputError
              | Some bs \<Rightarrow> Inr (map char_of bs))"

subsection \<open>EncodeCursor and DecodeCursor\<close>

definition json_Marshal :: "stdlib \<Rightarrow> Cursor \<Rightarrow> error + string" where
  "json_Marshal L c = (case marshal_Cursor L c of Inl e \<Rightarrow> Inl e | Inr j \<Rightarrow> Inr (render j))"

definition json_Unmarshal :: "string \<Rightarrow> error + Cursor" where
  "json_Unmarshal b = (case parse b of None \<Rightarrow> Inl SyntaxError | Some j \<Rightarrow> unmarshal_Cursor j)"

text \<open>The argument is a pointer: \<open>None\<close> is the nil cursor.\<close>

definition EncodeCursor :: "stdlib \<Rightarrow> Cursor option \<Rightarrow> string" where
  "EncodeCursor L p =
     (case p of
        None \<Rightarrow> []
      | Some c \<Rightarrow>
          (case json_Marshal L c of
             Inl err \<Rightarrow> []
           | Inr b \<Rightarrow> EncodeToString b))"

definition DecodeCursor :: "stdlib \<Rightarrow> string \<Rightarrow> error + Cursor" where
  "DecodeCursor L s =
     (if s = [] then Inl (Errorf ''cursor cannot be empty'')
      else case DecodeString s of
        Inl err \<Rightarrow> Inl (Wrap ''invalid cursor encoding'' err)
      | Inr b \<Rightarrow>
          (case json_Unmarshal b of
             Inl err \<Rightarrow> Inl (Wrap ''invalid cursor data'' err)
           | Inr c \<Rightarrow>
               if ID c = ANil then Inl (Errorf ''cursor missing required ID field'')
               else Inr (c\<lparr>ID := normalizeJSONNumber L (ID c),
                           Value := normalizeJSONNumber L (Value c)\<rparr>)))"

text \<open>
  The values \<^verbatim>\<open>json.Marshal\<close> rejects: a function or channel, a \<^verbatim>\<open>float64\<close> that is
  infinite or not a number, and a slice or map that holds one.
\<close>

fun unsupported :: "go_any \<Rightarrow> bool" where
  "unsupported AFunc = True"
| "unsupported (AFloat64 f) = (case f of Finite q \<Rightarrow> False | _ \<Rightarrow> True)"
| "unsupported (ASlice xs) = (\<exists>x \<in> set xs. unsupported x)"
| "unsupported (AMap kvs) = (\<exists>kv \<in> set kvs. unsupported (snd kv))"
| "unsupported ANil = False"
| "unsupported (ABool b) = False"
| "unsupported (AString s) = False"
| "unsupported (AInt64 i) = False"

text \<open>
  The member of a JSON value that decides the \<^verbatim>\<open>ID\<close> field: the last member of an
  object whose key is "id" up to case, if there is one.
\<close>

definition id_member :: "json \<Rightarrow> json option" where
  "id_member j =
     (case j of
        JObject kjs \<Rightarrow>
          (case filter (\<lambda>kj. fold_key (fst kj) = ''id'') kjs of
             [] \<Rightarrow> None
           | m # ms \<Rightarrow> Some (snd (last (m # ms))))
      | _ \<Rightarrow> None)"

text \<open>
  A platform for the examples: the result of an out-of-range conversion on amd64 (the
  smallest \<^verbatim>\<open>int64\<close>), lower-casing of ASCII letters, and for \<^verbatim>\<open>FormatFloat\<close> the digits
  of the integral part, which is what the library writes for a whole number of
  magnitude below \<open>2^53\<close>; the examples format no other \<^verbatim>\<open>float64\<close>.
\<close>

definition amd64 :: stdlib where
  "amd64 =
     \<lparr>FormatFloat = (\<lambda>q. FormatInt \<lfloor>q\<rfloor>),
      ToLower = map (\<lambda>c. if byte_in 0x41 0x5A c then char_of (of_char c + (32 :: nat)) else c),
      out_of_range_int64 = (\<lambda>f. - (2 ^ 63))\<rparr>"


(*DEFS-END*)
section \<open>Properties of the requests\<close>

text \<open>
  C8: a list request of size 0 has size 20 after \<^verbatim>\<open>SetDefaults\<close>; \<^verbatim>\<open>Validate\<close> returns
  an error for every size above 1000, every negative size, every negative page and
  every order other than the empty string, "asc" and "desc"; the search request's
  \<^verbatim>\<open>Validate\<close> returns an error in the same four cases and also whenever the query is
  empty and the filters have no entry.
\<close>

theorem C8_request_bounds:
  "(Size r = 0 \<longrightarrow> Size (SetDefaults r) = 20)
   \<and> (Size r > 1000 \<or> Size r < 0 \<or> Page r < 0 \<or> Order r \<notin> {[], ''asc'', ''desc''}
        \<longrightarrow> Validate (Some r) \<noteq> None)
   \<and> (SearchSize q > 1000 \<or> SearchSize q < 0 \<or> SearchPage q < 0
        \<or> SearchOrder q \<notin> {[], ''asc'', ''desc''}
        \<or> (Query q = [] \<and> dom (Filters q) = {})
        \<longrightarrow> SearchValidate (Some q) \<noteq> None)"
  by (auto simp: SetDefaults_def Validate_def SearchValidate_def DefaultPageSize_def
      MaxPageSize_def)

theorem C8_request_bounds_witness:
  "Size (SetDefaults \<lparr>Size = 0, Page = 0, SortBy = [], Order = [], Cursor = []\<rparr>) = 20
   \<and> Validate (Some \<lparr>Size = 5000, Page = 0, SortBy = [], Order = [], Cursor = []\<rparr>) \<noteq> None
   \<and> SearchValidate (Some \<lparr>Query = [], Filters = (Map.empty :: string \<rightharpoonup> unit),
        SearchSize = 0, SearchPage = 0, SearchSortBy = [], SearchOrder = []\<rparr>) \<noteq> None"
  using C8_request_bounds
    [of "\<lparr>Size = 0, Page = 0, SortBy = [], Order = [], Cursor = []\<rparr>"
        "\<lparr>Query = [], Filters = (Map.empty :: string \<rightharpoonup> unit),
          SearchSize = 0, SearchPage = 0, SearchSortBy = [], SearchOrder = []\<rparr>"]
    C8_request_bounds
    [of "\<lparr>Size = 5000, Page = 0, SortBy = [], Order = [], Cursor = []\<rparr>"
        "\<lparr>Query = [], Filters = (Map.empty :: string \<rightharpoonup> unit),
          SearchSize = 0, SearchPage = 0, SearchSortBy = [], SearchOrder = []\<rparr>"]
  by simp

section \<open>Properties of the identifiers\<close>

lemma foldl_step_mono: "n \<le> foldl (\<lambda>n c. n * 10 + digit_val c) n ds"
proof (induction ds arbitrary: n)
  case Nil show ?case by simp
next
  case (Cons c cs)
  have "n \<le> n * 10 + digit_val c" by simp
  also have "\<dots> \<le> foldl (\<lambda>n c. n * 10 + digit_val c) (n * 10 + digit_val c) cs" by (rule Cons.IH)
  finally show ?case by simp
qed

lemma ParseUint_loop_Inr:
  "ParseUint_loop ds n = Inr m \<longleftrightarrow>
     list_all is_digit ds \<and> m = foldl (\<lambda>n c. n * 10 + digit_val c) n ds \<and> (ds \<noteq> [] \<longrightarrow> m \<le> maxUint64)"
proof (induction ds arbitrary: n)
  case Nil show ?case by auto
next
  case (Cons c cs)
  let ?n' = "n * 10 + digit_val c"
  have mono: "?n' \<le> foldl (\<lambda>n c. n * 10 + digit_val c) ?n' cs" by (rule foldl_step_mono)
  have big: "n \<ge> maxUint64 div 10 + 1 \<Longrightarrow> ?n' > maxUint64" by (simp add: maxUint64_def)
  show ?case
  proof (cases "is_digit c")
    case False then show ?thesis by simp
  next
    case True
    show ?thesis
    proof (cases "?n' > maxUint64")
      case True
      with mono \<open>is_digit c\<close> show ?thesis by auto
    next
      case False
      with big have "\<not> n \<ge> maxUint64 div 10 + 1" by auto
      with False \<open>is_digit c\<close> Cons.IH[of ?n'] mono show ?thesis by (cases cs) auto
    qed
  qed
qed

lemma ParseUint_Inr:
  "ParseUint ds = Inr m \<longleftrightarrow> ds \<noteq> [] \<and> list_all is_digit ds \<and> m = decimal_value ds \<and> m \<le> maxUint64"
  by (auto simp: ParseUint_def ParseUint_loop_Inr decimal_value_def)


lemma ParseInt_core:
  "(case ParseUint ds of Inl ErrSyntax \<Rightarrow> Inl ErrSyntax | Inl ErrRange \<Rightarrow> Inl ErrRange
    | Inr un \<Rightarrow> if \<not> neg \<and> un \<ge> 2 ^ 63 then Inl ErrRange
               else if neg \<and> un > 2 ^ 63 then Inl ErrRange
               else Inr (if neg then - word_of_nat un else word_of_nat un)) = Inr (w :: int64)
   \<longleftrightarrow> ds \<noteq> [] \<and> list_all is_digit ds \<and>
       - (2 ^ 63) \<le> (if neg then - int (decimal_value ds) else int (decimal_value ds)) \<and>
       (if neg then - int (decimal_value ds) else int (decimal_value ds)) < 2 ^ 63 \<and>
       w = word_of_int (if neg then - int (decimal_value ds) else int (decimal_value ds))"
proof (cases "ParseUint ds")
  case (Inl e)
  then have "\<not> (ds \<noteq> [] \<and> list_all is_digit ds \<and> decimal_value ds \<le> maxUint64)"
    using ParseUint_Inr[of ds "decimal_value ds"] by auto
  then show ?thesis using Inl by (cases e) (auto simp: maxUint64_def)
next
  case (Inr un)
  then have *: "ds \<noteq> []" "list_all is_digit ds" "un = decimal_value ds"
    using ParseUint_Inr[of ds un] by auto
  show ?thesis using Inr * by auto
qed

lemma ParseInt_Inr:
  "ParseInt s = Inr w \<longleftrightarrow> (\<exists>v. numeral_value s = Some v \<and> - (2 ^ 63) \<le> v \<and> v < 2 ^ 63 \<and> w = word_of_int v)"
proof (cases "s = []")
  case True then show ?thesis by (simp add: ParseInt_def numeral_value_def)
next
  case False
  then show ?thesis
    unfolding ParseInt_def numeral_value_def Let_def
    by (simp only: if_False ParseInt_core) auto
qed


text \<open>
  C10: \<^verbatim>\<open>Int64ID.Int64\<close> returns its value and no error for every 64-bit integer;
  \<^verbatim>\<open>StringID.Int64\<close> returns an error exactly when the string is not a base-10 numeral
  of a 64-bit signed integer, and otherwise the integer the numeral denotes;
  \<^verbatim>\<open>IsZero\<close> holds exactly for the empty string and exactly for 0.
\<close>

theorem C10_id_conversions:
  "Int64 (Int64ID i) = Inr i
   \<and> (isl (Int64 (StringID s)) \<longleftrightarrow> \<not> is_base10_int64 s)
   \<and> (is_base10_int64 s \<longrightarrow>
        (\<exists>w. Int64 (StringID s) = Inr w \<and> numeral_value s = Some (sint w)))
   \<and> (IsZero (StringID s) \<longleftrightarrow> s = [])
   \<and> (IsZero (Int64ID i) \<longleftrightarrow> i = 0)"
proof -
  have a: "isl (Int64 (StringID s)) \<longleftrightarrow> \<not> is_base10_int64 s"
  proof (cases "ParseInt s")
    case (Inl e)
    then have "\<not> is_base10_int64 s"
      using ParseInt_Inr[of s "word_of_int (the (numeral_value s))"]
      by (auto simp: is_base10_int64_def split: option.splits)
    with Inl show ?thesis by simp
  next
    case (Inr w)
    then show ?thesis using ParseInt_Inr[of s w] by (auto simp: is_base10_int64_def)
  qed
  have b: "\<exists>w. Int64 (StringID s) = Inr w \<and> numeral_value s = Some (sint w)"
    if "is_base10_int64 s"
  proof -
    from that obtain v where v: "numeral_value s = Some v" "- (2 ^ 63) \<le> v" "v < 2 ^ 63"
      by (auto simp: is_base10_int64_def split: option.splits)
    then have "ParseInt s = Inr (word_of_int v)" using ParseInt_Inr[of s "word_of_int v"] by auto
    moreover have "sint (word_of_int v :: int64) = v"
      using v by (simp add: sint_sbintrunc' signed_take_bit_int_eq_self)
    ultimately show ?thesis using v by simp
  qed
  show ?thesis using a b by simp
qed

theorem C10_id_conversions_witness:
  "Int64 (Int64ID 0) = Inr 0
   \<and> isl (Int64 (StringID []))
   \<and> isl (Int64 (StringID ''9223372036854775808''))
   \<and> isl (Int64 (StringID ''12a''))
   \<and> (\<exists>w. Int64 (StringID ''-42'') = Inr w \<and> sint w = - 42)
   \<and> IsZero (StringID []) \<and> \<not> IsZero (StringID ''0'') \<and> IsZero (Int64ID 0)"
proof -
  have n1: "\<not> is_base10_int64 []"
    by (simp add: is_base10_int64_def numeral_value_def)
  have n2: "\<not> is_base10_int64 ''9223372036854775808''"
    by (simp add: is_base10_int64_def numeral_value_def decimal_value_def is_digit_def digit_val_def)
  have n3: "\<not> is_base10_int64 ''12a''"
    by (simp add: is_base10_int64_def numeral_value_def decimal_value_def is_digit_def digit_val_def)
  have n4: "is_base10_int64 ''-42''" "numeral_value ''-42'' = Some (- 42)"
    by (simp_all add: is_base10_int64_def numeral_value_def decimal_value_def is_digit_def digit_val_def)
  show ?thesis
    using C10_id_conversions[of 0 "[]"] C10_id_conversions[of 0 "''9223372036854775808''"]
      C10_id_conversions[of 0 "''12a''"] C10_id_conversions[of 0 "''-42''"]
      C10_id_conversions[of 0 "''0''"] n1 n2 n3 n4
    by auto
qed

section \<open>Properties of the generic service\<close>

text \<open>
  C4: for a non-zero ID and an update request whose validation returns no error, when
  the storage fetch of the existing model fails with an error, \<^verbatim>\<open>Update\<close> returns that
  error wrapped under the prefix "failed to get existing model"; the cause is what
  \<^verbatim>\<open>errors.Unwrap\<close> returns and \<^verbatim>\<open>errors.Is\<close> finds; and the only storage call made
  is the fetch, so the storage update is never called.
\<close>

theorem C4_update_get_failure:
  assumes "\<not> IsZero eid" and "ur_Validate req = None"
    and "repo_GetByID (repo s) st eid = (Inl cause, st1)"
  shows "Update s st eid req
           = (Inl (Wrap ''failed to get existing model'' cause), [CallGetByID eid], st1)
    \<and> errors_Unwrap (Wrap ''failed to get existing model'' cause) = Some cause
    \<and> errors_Is (Wrap ''failed to get existing model'' cause) cause
    \<and> (\<forall>m. CallUpdate m \<notin> set (fst (snd (Update s st eid req))))"
proof -
  have u: "Update s st eid req
           = (Inl (Wrap ''failed to get existing model'' cause), [CallGetByID eid], st1)"
    using assms by (simp add: Update_def)
  have i: "errors_Is (Wrap ''failed to get existing model'' cause) cause"
    by (cases cause) simp_all
  show ?thesis using u i by simp
qed

theorem C4_update_get_failure_witness:
  "Update missing_service 0 (Int64ID 999) \<lparr>ur_Validate = None, ApplyToDomainModel = Some\<rparr>
     = (Inl (Wrap ''failed to get existing model'' ErrNotFound), [CallGetByID (Int64ID 999)], 0)
   \<and> errors_Is (Wrap ''failed to get existing model'' ErrNotFound) ErrNotFound
   \<and> (\<forall>m. CallUpdate m \<notin> set (fst (snd (Update missing_service 0 (Int64ID 999)
          \<lparr>ur_Validate = None, ApplyToDomainModel = Some\<rparr>))))"
  using C4_update_get_failure
    [of "Int64ID 999" "\<lparr>ur_Validate = None, ApplyToDomainModel = Some\<rparr>"
        missing_service 0 ErrNotFound 0]
  by (simp add: missing_service_def)

text \<open>
  C7: \<^verbatim>\<open>List\<close> calls the storage's list operation once, on the store it was given, with
  a request whose size is the default 20 when the given size is at most 0 or above 1000
  and the given size otherwise, whose page is 0 when the given page is negative and the
  given page otherwise, and whose sort field and order are the given ones: the store
  \<^verbatim>\<open>List\<close> leaves behind is the one that storage call leaves, and its result is that
  call's result, wrapped when it is an error and converted with the clamped page and
  size otherwise.
\<close>

theorem C7_list_clamps:
  "\<exists>req. Size req = (if size0 \<le> 0 \<or> size0 > 1000 then 20 else size0)
     \<and> Page req = (if page0 < 0 then 0 else page0)
     \<and> SortBy req = sortBy \<and> Order req = order \<and> Cursor req = []
     \<and> snd (snd (List s st page0 size0 sortBy order)) = snd (repo_List (repo s) st req)
     \<and> fst (List s st page0 size0 sortBy order)
         = (case fst (repo_List (repo s) st req) of
              Inl err \<Rightarrow> Inl (Wrap ''failed to list'' err)
            | Inr (models, n) \<Rightarrow>
                Inr (ToListResponse (conv s) models n (Page req) (Size req)))
     \<and> fst (snd (List s st page0 size0 sortBy order)) = [CallList req]"
proof -
  define req where "req = \<lparr>Size = (if size0 \<le> 0 \<or> size0 > 1000 then 20 else size0),
    Page = (if page0 < 0 then 0 else page0), SortBy = sortBy, Order = order, Cursor = []\<rparr>"
  obtain r st1 where call: "repo_List (repo s) st req = (r, st1)"
    by (cases "repo_List (repo s) st req")
  have unfold: "List s st page0 size0 sortBy order
          = (case repo_List (repo s) st req of
               (Inl err, st1) \<Rightarrow> (Inl (Wrap ''failed to list'' err), [CallList req], st1)
             | (Inr (models, n), st1) \<Rightarrow>
                 (Inr (ToListResponse (conv s) models n (Page req) (Size req)),
                  [CallList req], st1))"
    unfolding List_def Let_def MaxPageSize_def DefaultPageSize_def req_def
    by (simp split: prod.splits sum.splits)
  have "List s st page0 size0 sortBy order
          = (case r of
               Inl err \<Rightarrow> (Inl (Wrap ''failed to list'' err), [CallList req], st1)
             | Inr (models, n) \<Rightarrow>
                 (Inr (ToListResponse (conv s) models n (Page req) (Size req)),
                  [CallList req], st1))"
    unfolding unfold call by (simp split: sum.splits)
  then have "snd (snd (List s st page0 size0 sortBy order)) = snd (repo_List (repo s) st req)
     \<and> fst (List s st page0 size0 sortBy order)
         = (case fst (repo_List (repo s) st req) of
              Inl err \<Rightarrow> Inl (Wrap ''failed to list'' err)
            | Inr (models, n) \<Rightarrow>
                Inr (ToListResponse (conv s) models n (Page req) (Size req)))
     \<and> fst (snd (List s st page0 size0 sortBy order)) = [CallList req]"
    using call by (simp split: sum.splits prod.splits)
  moreover have "Size req = (if size0 \<le> 0 \<or> size0 > 1000 then 20 else size0)
     \<and> Page req = (if page0 < 0 then 0 else page0)
     \<and> SortBy req = sortBy \<and> Order req = order \<and> Cursor req = []"
    by (simp add: req_def)
  ultimately show ?thesis by blast
qed

text \<open>
  The scenario of the specification, on a storage that keeps every list request it
  receives: called with page -5 and size -1, \<^verbatim>\<open>List\<close> leaves exactly one request in the
  store, of size 20 and page 0.
\<close>

theorem C7_list_clamps_witness:
  "snd (snd (List recording_service [] (- 5) (- 1) ''name'' ''asc''))
     = [\<lparr>Size = 20, Page = 0, SortBy = ''name'', Order = ''asc'', Cursor = []\<rparr>]
   \<and> fst (List recording_service [] (- 5) (- 1) ''name'' ''asc'') = Inr (0, 20)"
proof -
  from C7_list_clamps [of "- 1" "- 5" "''name''" "''asc''" recording_service "[]"]
  obtain req where req: "Size req = 20" "Page req = 0" "SortBy req = ''name''"
      "Order req = ''asc''" "Cursor req = []"
    and st: "snd (snd (List recording_service [] (- 5) (- 1) ''name'' ''asc''))
           = snd (repo_List (repo recording_service) [] req)"
    and res: "fst (List recording_service [] (- 5) (- 1) ''name'' ''asc'')
         = (case fst (repo_List (repo recording_service) [] req) of
              Inl err \<Rightarrow> Inl (Wrap ''failed to list'' err)
            | Inr (models, n) \<Rightarrow>
                Inr (ToListResponse (conv recording_service) models n (Page req) (Size req)))"
    by auto
  have "req = \<lparr>Size = 20, Page = 0, SortBy = ''name'', Order = ''asc'', Cursor = []\<rparr>"
    using req by (cases req) simp
  then show ?thesis using st res by (simp add: recording_service_def)
qed

section \<open>Properties of the cursor codec\<close>

subsection \<open>base64\<close>

lemma isl_collect: "isl (collect rs) \<longleftrightarrow> (\<exists>r \<in> set rs. isl r)"
  by (induction rs rule: collect.induct) (auto split: sum.splits)

lemma decode_groups_None: "decode_groups ns = None \<longleftrightarrow> length ns mod 4 = 1"
  by (induction ns rule: decode_groups.induct) (auto split: option.splits)

lemma dec6_enc6_all: "list_all (\<lambda>n. dec6 (enc6 n) = Some n) [0..<64]"
  by code_simp

lemma dec6_enc6: "n < 64 \<Longrightarrow> dec6 (enc6 n) = Some n"
  using dec6_enc6_all by (simp add: list_all_iff)

lemma encode_groups_lt:
  "\<forall>b \<in> set bs. b < 256 \<Longrightarrow> \<forall>n \<in> set (encode_groups bs). n < 64"
proof (induction bs rule: encode_groups.induct)
  case (1 a b c bs)
  have "a div 4 < 64" "a mod 4 * 16 + b div 16 < 64" "b mod 16 * 4 + c div 64 < 64" "c mod 64 < 64"
    using 1(2) by (auto simp: div_less_iff_less_mult)
  then show ?case using 1 by auto
next
  case (2 a b)
  have "a div 4 < 64" "a mod 4 * 16 + b div 16 < 64" "b mod 16 * 4 < 64"
    using 2 by (auto simp: div_less_iff_less_mult)
  then show ?case by auto
next
  case (3 a)
  have "a div 4 < 64" "a mod 4 * 16 < 64" using 3 by (auto simp: div_less_iff_less_mult)
  then show ?case by auto
qed simp

lemma decode_encode_groups:
  "\<forall>b \<in> set bs. b < 256 \<Longrightarrow> decode_groups (encode_groups bs) = Some bs"
proof (induction bs rule: encode_groups.induct)
  case (1 a b c bs)
  have "a div 4 * 4 + (a mod 4 * 16 + b div 16) div 16 = a"
       "(a mod 4 * 16 + b div 16) mod 16 * 16 + (b mod 16 * 4 + c div 64) div 4 = b"
       "(b mod 16 * 4 + c div 64) mod 4 * 64 + c mod 64 = c"
    using 1(2) by (auto simp: div_add1_eq mod_add_eq)
  then show ?case using 1 by auto
next
  case (2 a b)
  have "a div 4 * 4 + (a mod 4 * 16 + b div 16) div 16 = a"
       "(a mod 4 * 16 + b div 16) mod 16 * 16 + (b mod 16 * 4) div 4 = b"
    using 2 by (auto simp: div_add1_eq mod_add_eq)
  then show ?case by auto
next
  case (3 a)
  have "a div 4 * 4 + (a mod 4 * 16) div 16 = a" using 3 by (auto simp: div_add1_eq mod_add_eq)
  then show ?case by auto
qed simp


lemma enc6_ok: "n < 64 \<Longrightarrow> enc6 n \<noteq> CHR 0x0A \<and> enc6 n \<noteq> CHR 0x0D"
  using dec6_enc6[of n] by (auto simp: dec6_def byte_in_def)

lemma DecodeString_EncodeToString: "DecodeString (EncodeToString b) = Inr b"
proof -
  let ?ns = "encode_groups (map of_char b)"
  have lt: "\<forall>n \<in> set ?ns. n < 64"
    by (rule encode_groups_lt) (auto)
  have f: "filter (\<lambda>c. c \<noteq> CHR 0x0A \<and> c \<noteq> CHR 0x0D) (map enc6 ?ns) = map enc6 ?ns"
    using lt enc6_ok by (auto simp: filter_id_conv)
  have d: "map (\<lambda>c. the (dec6 c)) (map enc6 ?ns) = ?ns"
    using lt dec6_enc6 by (auto simp: map_idI)
  have g: "decode_groups ?ns = Some (map of_char b)"
    by (rule decode_encode_groups) auto
  have n: "\<not> (\<exists>c \<in> set (map enc6 ?ns). dec6 c = None)"
    using lt dec6_enc6 by auto
  show ?thesis
    unfolding DecodeString_def EncodeToString_def Let_def f d
    using n g by (simp add: comp_def)
qed

lemma EncodeToString_Nil_iff: "EncodeToString b = [] \<longleftrightarrow> b = []"
  by (cases "map of_char b :: nat list" rule: encode_groups.cases) (auto simp: EncodeToString_def)

lemma isl_DecodeString:
  "isl (DecodeString s) \<longleftrightarrow>
     (\<exists>c \<in> set s. c \<noteq> CHR 0x0A \<and> c \<noteq> CHR 0x0D \<and> dec6 c = None)
     \<or> length (filter (\<lambda>c. c \<noteq> CHR 0x0A \<and> c \<noteq> CHR 0x0D) s) mod 4 = 1"
  using decode_groups_None[of "map (\<lambda>c. the (dec6 c)) (filter (\<lambda>c. c \<noteq> CHR 0x0A \<and> c \<noteq> CHR 0x0D) s)"]
  by (auto simp: DecodeString_def Let_def split: option.splits)

subsection \<open>Marshalling\<close>

lemma isl_with_key: "isl (with_key k r) = isl r"
  by (cases r) (auto simp: with_key_def)

lemma isl_marshal_any: "isl (marshal_any L v) \<longleftrightarrow> unsupported v"
proof (induction L v rule: marshal_any.induct)
  case (6 L xs)
  have "isl (collect (map (marshal_any L) xs)) \<longleftrightarrow> (\<exists>x \<in> set xs. unsupported x)"
    using 6 by (auto simp: isl_collect)
  then show ?case by (cases "collect (map (marshal_any L) xs)") auto
next
  case (7 L kvs)
  have "isl (collect (map (\<lambda>kv. with_key (fst kv) (marshal_any L (snd kv))) kvs))
        \<longleftrightarrow> (\<exists>kv \<in> set kvs. unsupported (snd kv))"
  proof -
    have "\<And>kv. kv \<in> set kvs \<Longrightarrow> isl (marshal_any L (snd kv)) = unsupported (snd kv)"
      using 7 by (metis prod.collapse)
    then show ?thesis by (simp add: isl_collect isl_with_key)
  qed
  then show ?case
    by (cases "collect (map (\<lambda>kv. with_key (fst kv) (marshal_any L (snd kv))) kvs)") auto
qed (auto simp: UnsupportedTypeError_def split: float64.splits)

lemma isl_marshal_Cursor:
  "isl (marshal_Cursor L c) \<longleftrightarrow> unsupported (ID c) \<or> unsupported (Value c)"
  using isl_marshal_any[of L "ID c"] isl_marshal_any[of L "Value c"]
  by (auto simp: marshal_Cursor_def split: sum.splits)

lemma render_object_nonempty: "marshal_Cursor L c = Inr j \<Longrightarrow> render j \<noteq> []"
  by (auto simp: marshal_Cursor_def split: sum.splits if_splits)


subsection \<open>Errors of the codec\<close>

lemma set_members_ID:
  "set_members c0 kjs = Inr c \<Longrightarrow>
     (filter (\<lambda>kj. fold_key (fst kj) = ''id'') kjs = [] \<longrightarrow> ID c = ID c0) \<and>
     (filter (\<lambda>kj. fold_key (fst kj) = ''id'') kjs \<noteq> [] \<longrightarrow>
        unmarshal_any (snd (last (filter (\<lambda>kj. fold_key (fst kj) = ''id'') kjs))) = Inr (ID c))"
proof (induction kjs arbitrary: c0)
  case Nil
  then show ?case by simp
next
  case (Cons kj kjs)
  from Cons.prems obtain c1 where c1: "set_member c0 kj = Inr c1" "set_members c1 kjs = Inr c"
    by (auto split: sum.splits)
  note IH = Cons.IH[OF c1(2)]
  show ?case
  proof (cases "fold_key (fst kj) = ''id''")
    case True
    then have "unmarshal_any (snd kj) = Inr (ID c1)"
      using c1(1) by (auto simp: set_member_def split: sum.splits)
    then show ?thesis using True IH by auto
  next
    case False
    then have "ID c1 = ID c0"
      using c1(1) by (auto simp: set_member_def split: sum.splits if_splits)
    then show ?thesis using False IH by auto
  qed
qed

lemma unmarshal_Cursor_no_id:
  assumes "unmarshal_Cursor j = Inr c" and "id_member j = None \<or> id_member j = Some JNull"
  shows "ID c = ANil"
proof (cases j)
  case (JObject kjs)
  then have sm: "set_members \<lparr>ID = ANil, Value = ANil\<rparr> kjs = Inr c"
    using assms(1) by (simp add: unmarshal_Cursor_def)
  show ?thesis
  proof (cases "filter (\<lambda>kj. fold_key (fst kj) = ''id'') kjs")
    case Nil
    then show ?thesis using set_members_ID[OF sm] by simp
  next
    case (Cons m ms)
    then have "snd (last (filter (\<lambda>kj. fold_key (fst kj) = ''id'') kjs)) = JNull"
      using assms(2) JObject by (simp add: id_member_def)
    then show ?thesis using set_members_ID[OF sm] Cons by auto
  qed
qed (use assms in \<open>auto simp: unmarshal_Cursor_def\<close>)

text \<open>
  C6: \<^verbatim>\<open>EncodeCursor\<close> of the nil cursor is the empty string.  \<^verbatim>\<open>DecodeCursor\<close> returns
  an error for the empty token; the wrapped base64 error for a token that is not
  unpadded URL-safe base64, which is one that, line breaks aside, has a byte outside
  the alphabet or a length of 1 modulo 4; the wrapped syntax error when the decoded bytes
  are not JSON; and, when they are JSON whose last "id" member is missing or null, the
  missing-ID error, unless a member could not be decoded at all, which is the wrapped
  decoding error.  So every malformed token gives an error value.
\<close>

theorem C6_decode_errors:
  "EncodeCursor L None = []
   \<and> DecodeCursor L [] = Inl (Errorf ''cursor cannot be empty'')
   \<and> (isl (DecodeString s) \<longleftrightarrow>
        (\<exists>c \<in> set s. c \<noteq> CHR 0x0A \<and> c \<noteq> CHR 0x0D \<and> dec6 c = None)
        \<or> length (filter (\<lambda>c. c \<noteq> CHR 0x0A \<and> c \<noteq> CHR 0x0D) s) mod 4 = 1)
   \<and> (s \<noteq> [] \<and> isl (DecodeString s) \<longrightarrow>
        DecodeCursor L s = Inl (Wrap ''invalid cursor encoding'' CorruptInputError))
   \<and> (s \<noteq> [] \<and> DecodeString s = Inr b \<and> parse b = None \<longrightarrow>
        DecodeCursor L s = Inl (Wrap ''invalid cursor data'' SyntaxError))
   \<and> (s \<noteq> [] \<and> DecodeString s = Inr b \<and> parse b = Some j
        \<and> (id_member j = None \<or> id_member j = Some JNull) \<longrightarrow>
        DecodeCursor L s =
          (case unmarshal_Cursor j of
             Inl e \<Rightarrow> Inl (Wrap ''invalid cursor data'' e)
           | Inr c \<Rightarrow> Inl (Errorf ''cursor missing required ID field'')))"
proof -
  have a: "EncodeCursor L None = []" by (simp add: EncodeCursor_def)
  have b: "DecodeCursor L [] = Inl (Errorf ''cursor cannot be empty'')"
    by (simp add: DecodeCursor_def)
  have c: "DecodeCursor L s = Inl (Wrap ''invalid cursor encoding'' CorruptInputError)"
    if "s \<noteq> []" "isl (DecodeString s)"
  proof -
    from that(2) have "DecodeString s = Inl CorruptInputError"
      by (auto simp: DecodeString_def Let_def split: if_splits option.splits)
    then show ?thesis using that(1) by (simp add: DecodeCursor_def)
  qed
  have d: "DecodeCursor L s = Inl (Wrap ''invalid cursor data'' SyntaxError)"
    if "s \<noteq> []" "DecodeString s = Inr b" "parse b = None"
    using that by (simp add: DecodeCursor_def json_Unmarshal_def)
  have e: "DecodeCursor L s =
          (case unmarshal_Cursor j of
             Inl e \<Rightarrow> Inl (Wrap ''invalid cursor data'' e)
           | Inr c \<Rightarrow> Inl (Errorf ''cursor missing required ID field''))"
    if "s \<noteq> []" "DecodeString s = Inr b" "parse b = Some j"
      "id_member j = None \<or> id_member j = Some JNull"
  proof (cases "unmarshal_Cursor j")
    case (Inl e)
    then show ?thesis using that by (simp add: DecodeCursor_def json_Unmarshal_def)
  next
    case (Inr c)
    then have "ID c = ANil" using that(4) by (rule unmarshal_Cursor_no_id)
    then show ?thesis using that Inr by (simp add: DecodeCursor_def json_Unmarshal_def)
  qed
  show ?thesis using a b c d e isl_DecodeString[of s] by blast
qed

theorem C6_decode_errors_witness:
  "EncodeCursor amd64 None = []
   \<and> DecodeCursor amd64 [] = Inl (Errorf ''cursor cannot be empty'')
   \<and> DecodeCursor amd64 ''!!!'' = Inl (Wrap ''invalid cursor encoding'' CorruptInputError)
   \<and> DecodeCursor amd64 ''bm90IGpzb24'' = Inl (Wrap ''invalid cursor data'' SyntaxError)
   \<and> DecodeCursor amd64 ''eyJ2YWx1ZSI6IngifQ'' = Inl (Errorf ''cursor missing required ID field'')
   \<and> DecodeCursor amd64 ''eyJpZCI6MSwiSUQiOm51bGx9'' = Inl (Errorf ''cursor missing required ID field'')"
proof -
  have bad: "isl (DecodeString ''!!!'')" by code_simp
  have nj: "DecodeString ''bm90IGpzb24'' = Inr (''not json'')" "parse (''not json'') = None" by code_simp+
  have noid: "DecodeString ''eyJ2YWx1ZSI6IngifQ'' = Inr (''{'' @ [CHR 0x22] @ ''value'' @ [CHR 0x22] @ '':'' @ [CHR 0x22] @ ''x'' @ [CHR 0x22] @ ''}'')"
    "parse (''{'' @ [CHR 0x22] @ ''value'' @ [CHR 0x22] @ '':'' @ [CHR 0x22] @ ''x'' @ [CHR 0x22] @ ''}'') = Some (JObject [(''value'', JString ''x'')])"
    "id_member (JObject [(''value'', JString ''x'')]) = None"
    "unmarshal_Cursor (JObject [(''value'', JString ''x'')]) = Inr \<lparr>ID = ANil, Value = AString ''x''\<rparr>"
    by code_simp+
  have nullid: "DecodeString ''eyJpZCI6MSwiSUQiOm51bGx9'' = Inr (''{'' @ [CHR 0x22] @ ''id'' @ [CHR 0x22] @ '':1,'' @ [CHR 0x22] @ ''ID'' @ [CHR 0x22] @ '':null}'')"
    "parse (''{'' @ [CHR 0x22] @ ''id'' @ [CHR 0x22] @ '':1,'' @ [CHR 0x22] @ ''ID'' @ [CHR 0x22] @ '':null}'') = Some (JObject [(''id'', JNumber ''1''), (''ID'', JNull)])"
    "id_member (JObject [(''id'', JNumber ''1''), (''ID'', JNull)]) = Some JNull"
    "unmarshal_Cursor (JObject [(''id'', JNumber ''1''), (''ID'', JNull)]) = Inr \<lparr>ID = ANil, Value = ANil\<rparr>"
    by code_simp+
  show ?thesis
    using C6_decode_errors[of amd64 "''!!!''" "[]" JNull] bad
      C6_decode_errors[of amd64 "''bm90IGpzb24''" "(''not json'')" JNull] nj
      C6_decode_errors[of amd64 "''eyJ2YWx1ZSI6IngifQ''" "(''{'' @ [CHR 0x22] @ ''value'' @ [CHR 0x22] @ '':'' @ [CHR 0x22] @ ''x'' @ [CHR 0x22] @ ''}'')" "JObject [(''value'', JString ''x'')]"] noid
      C6_decode_errors[of amd64 "''eyJpZCI6MSwiSUQiOm51bGx9''" "(''{'' @ [CHR 0x22] @ ''id'' @ [CHR 0x22] @ '':1,'' @ [CHR 0x22] @ ''ID'' @ [CHR 0x22] @ '':null}'')"
        "JObject [(''id'', JNumber ''1''), (''ID'', JNull)]"] nullid
    by simp
qed

text \<open>
  C9: \<^verbatim>\<open>EncodeCursor\<close> returns the empty string for the nil cursor, and for a cursor
  that is not nil exactly when its ID or its Value cannot be marshalled (it is or holds
  a function, a channel, or a \<^verbatim>\<open>float64\<close> that is infinite or not a number); such a
  cursor is encoded as the nil cursor is.
\<close>

theorem C9_encode_failure:
  "EncodeCursor L None = []
   \<and> (EncodeCursor L (Some c) = [] \<longleftrightarrow> unsupported (ID c) \<or> unsupported (Value c))
   \<and> (unsupported (ID c) \<or> unsupported (Value c) \<longrightarrow>
        EncodeCursor L (Some c) = EncodeCursor L None)"
proof -
  have a: "EncodeCursor L None = []" by (simp add: EncodeCursor_def)
  have b: "EncodeCursor L (Some c) = [] \<longleftrightarrow> unsupported (ID c) \<or> unsupported (Value c)"
  proof (cases "marshal_Cursor L c")
    case (Inl e)
    then show ?thesis using isl_marshal_Cursor[of L c]
      by (simp add: EncodeCursor_def json_Marshal_def)
  next
    case (Inr j)
    then have "render j \<noteq> []" by (rule render_object_nonempty)
    then show ?thesis using Inr isl_marshal_Cursor[of L c]
      by (simp add: EncodeCursor_def json_Marshal_def EncodeToString_Nil_iff)
  qed
  show ?thesis using a b by simp
qed

theorem C9_encode_failure_witness:
  "EncodeCursor amd64 (Some \<lparr>ID = AInt64 42, Value = AFunc\<rparr>) = []
   \<and> EncodeCursor amd64 (Some \<lparr>ID = AFunc, Value = ANil\<rparr>) = []
   \<and> EncodeCursor amd64 (Some \<lparr>ID = AInt64 42, Value = ASlice [AFloat64 NaN]\<rparr>) = []
   \<and> EncodeCursor amd64 (Some \<lparr>ID = AInt64 42, Value = AFunc\<rparr>) = EncodeCursor amd64 None
   \<and> EncodeCursor amd64 (Some \<lparr>ID = AInt64 42, Value = ANil\<rparr>) \<noteq> []"
  using C9_encode_failure[of amd64 "\<lparr>ID = AInt64 42, Value = AFunc\<rparr>"]
    C9_encode_failure[of amd64 "\<lparr>ID = AFunc, Value = ANil\<rparr>"]
    C9_encode_failure[of amd64 "\<lparr>ID = AInt64 42, Value = ASlice [AFloat64 NaN]\<rparr>"]
    C9_encode_failure[of amd64 "\<lparr>ID = AInt64 42, Value = ANil\<rparr>"]
  by simp

subsection \<open>Normalisation of decoded numbers\<close>

lemma round_half_even_of_int: "round_half_even (of_int n) = n"
  by (simp add: round_half_even_def Let_def)

lemma round_float64_of_int_integral: "\<exists>k. round_float64 (of_int t) = of_int k"
proof (cases "t = 0")
  case True
  then show ?thesis by (auto simp: round_float64_def intro: exI[of _ 0])
next
  case False
  define q :: rat where "q = of_int t"
  define e where "e = max (ilog2 q - 52) (- 1074)"
  have r: "round_float64 q = sgn q * of_int (round_half_even (\<bar>q\<bar> / 2 powi e)) * 2 powi e"
    using False by (simp add: round_float64_def q_def e_def Let_def)
  have sg: "sgn q = of_int (sgn t)" by (simp add: q_def sgn_if)
  show ?thesis
  proof (cases "0 \<le> e")
    case True
    then have "(2::rat) powi e = of_int (2 ^ nat e)" by (simp add: power_int_def)
    then have "round_float64 q = of_int (sgn t * round_half_even (\<bar>q\<bar> / 2 powi e) * 2 ^ nat e)"
      using r sg by simp
    then show ?thesis unfolding q_def by blast
  next
    case False
    then have p: "(2::rat) powi e = inverse (2 ^ nat (- e))"
      by (simp add: power_int_def power_one_over inverse_eq_divide)
    have "\<bar>q\<bar> / 2 powi e = of_int (\<bar>t\<bar> * 2 ^ nat (- e))"
      by (simp add: p q_def divide_inverse)
    then have "round_half_even (\<bar>q\<bar> / 2 powi e) = \<bar>t\<bar> * 2 ^ nat (- e)"
      by (simp only: round_half_even_of_int)
    then have "round_float64 q = of_int (sgn t) * of_int (\<bar>t\<bar> * 2 ^ nat (- e)) * inverse (2 ^ nat (- e))"
      using r sg p by simp
    also have "\<dots> = of_int (sgn t * \<bar>t\<bar>)" by simp
    finally show ?thesis unfolding q_def by blast
  qed
qed

lemma trunc_of_int: "trunc_toward_zero (of_int n) = n"
  by (simp add: trunc_toward_zero_def)

lemma sint_word_of_int_64:
  "- (2 ^ 63) \<le> n \<Longrightarrow> n < 2 ^ 63 \<Longrightarrow> sint (word_of_int n :: int64) = n"
  by (simp add: sint_sbintrunc' signed_take_bit_int_eq_self)

lemma normalize_whole:
  assumes "q \<in> \<int>" "round_float64 q = q" "- (2 ^ 63) \<le> q" "q < 2 ^ 63"
  shows "\<exists>i. normalizeJSONNumber L (AFloat64 (Finite q)) = AInt64 i \<and> of_int (sint i) = q"
proof -
  from assms(1) obtain n where n: "q = of_int n" by (auto elim: Ints_cases)
  have "(of_int (- (2 ^ 63)) :: rat) \<le> of_int n" "(of_int n :: rat) < of_int (2 ^ 63)"
    using assms(3,4) by (simp_all add: n)
  then have rng: "- (2 ^ 63) \<le> n" "n < 2 ^ 63"
    unfolding of_int_le_iff of_int_less_iff by simp_all
  have i: "int64_of_float64 L (Finite q) = word_of_int n"
    using rng by (simp add: int64_of_float64_def n trunc_of_int)
  have "float64_of_int64 (word_of_int n) = Finite q"
    using assms(2) rng by (simp add: float64_of_int64_def sint_word_of_int_64 n)
  then have "normalizeJSONNumber L (AFloat64 (Finite q)) = AInt64 (word_of_int n)"
    by (simp add: normalizeJSONNumber_def i float64_eq_def)
  moreover have "(of_int (sint (word_of_int n :: int64)) :: rat) = q"
    unfolding sint_word_of_int_64[OF rng] n ..
  ultimately show ?thesis by blast
qed

lemma normalize_not_whole:
  assumes "q \<notin> \<int>"
  shows "normalizeJSONNumber L (AFloat64 (Finite q)) = AFloat64 (Finite q)"
proof -
  obtain k where "round_float64 (of_int (sint (int64_of_float64 L (Finite q)))) = of_int k"
    using round_float64_of_int_integral by blast
  then have "float64_of_int64 (int64_of_float64 L (Finite q)) \<noteq> Finite q"
    using assms by (auto simp: float64_of_int64_def)
  then show ?thesis by (simp add: normalizeJSONNumber_def float64_eq_def)
qed

lemma normalize_not_finite:
  "f = NaN \<or> f = PosInf \<or> f = NegInf \<Longrightarrow>
     normalizeJSONNumber L (AFloat64 f) = AFloat64 f"
  by (auto simp: normalizeJSONNumber_def float64_eq_def float64_of_int64_def)

lemma normalize_other: "(\<forall>f. v \<noteq> AFloat64 f) \<Longrightarrow> normalizeJSONNumber L v = v"
  by (cases v) (auto simp: normalizeJSONNumber_def)

lemma normalize_out_of_range:
  assumes "q \<le> - (2 ^ 63) - 1 \<or> 2 ^ 63 \<le> q"
  shows "normalizeJSONNumber L (AFloat64 (Finite q)) = AFloat64 (Finite q)
     \<or> normalizeJSONNumber L (AFloat64 (Finite q)) = AInt64 (out_of_range_int64 L (Finite q))"
proof -
  have "\<not> (- (2 ^ 63) \<le> trunc_toward_zero q \<and> trunc_toward_zero q < 2 ^ 63)"
  proof (cases "2 ^ 63 \<le> q")
    case True
    then have "2 ^ 63 \<le> \<lfloor>q\<rfloor>" by (simp add: le_floor_iff)
    moreover have "(0::rat) < 2 ^ 63" by simp
    then have "\<not> q < 0" using True by linarith
    ultimately show ?thesis by (simp add: trunc_toward_zero_def)
  next
    case False
    then have "2 ^ 63 + 1 \<le> - q" using assms by simp
    then have "2 ^ 63 + 1 \<le> \<lfloor>- q\<rfloor>" by (simp add: le_floor_iff)
    moreover have "(0::rat) < 2 ^ 63" by simp
    then have "q < 0" using \<open>2 ^ 63 + 1 \<le> - q\<close> by linarith
    ultimately show ?thesis by (simp add: trunc_toward_zero_def)
  qed
  then show ?thesis
    by (auto simp: normalizeJSONNumber_def int64_of_float64_def)
qed

text \<open>
  C2, as the code has it: \<^verbatim>\<open>DecodeCursor\<close> passes both decoded fields through
  \<^verbatim>\<open>normalizeJSONNumber\<close>, which turns a \<^verbatim>\<open>float64\<close> holding a whole number of the
  \<^verbatim>\<open>int64\<close> range, from \<open>-2^63\<close> up to but not including \<open>2^63\<close>, into the \<^verbatim>\<open>int64\<close> of
  the same value, and returns unchanged every \<^verbatim>\<open>float64\<close> that is not whole, is infinite
  or is not a number, and every value that is not a \<^verbatim>\<open>float64\<close>.  A whole number beyond
  the \<^verbatim>\<open>int64\<close> range is returned unchanged or as the integer the platform's
  out-of-range conversion produces.
\<close>

theorem C2_normalization:
  "(q \<in> \<int> \<and> round_float64 q = q \<and> - (2 ^ 63) \<le> q \<and> q < 2 ^ 63 \<longrightarrow>
      (\<exists>i. normalizeJSONNumber L (AFloat64 (Finite q)) = AInt64 i \<and> of_int (sint i) = q))
   \<and> (q \<notin> \<int> \<longrightarrow> normalizeJSONNumber L (AFloat64 (Finite q)) = AFloat64 (Finite q))
   \<and> (q \<le> - (2 ^ 63) - 1 \<or> 2 ^ 63 \<le> q \<longrightarrow>
        normalizeJSONNumber L (AFloat64 (Finite q)) = AFloat64 (Finite q)
        \<or> normalizeJSONNumber L (AFloat64 (Finite q)) = AInt64 (out_of_range_int64 L (Finite q)))
   \<and> (f = NaN \<or> f = PosInf \<or> f = NegInf \<longrightarrow>
        normalizeJSONNumber L (AFloat64 f) = AFloat64 f)
   \<and> ((\<forall>g. v \<noteq> AFloat64 g) \<longrightarrow> normalizeJSONNumber L v = v)
   \<and> (s \<noteq> [] \<and> DecodeString s = Inr b \<and> json_Unmarshal b = Inr c \<and> ID c \<noteq> ANil \<longrightarrow>
        DecodeCursor L s = Inr \<lparr>ID = normalizeJSONNumber L (ID c),
                                Value = normalizeJSONNumber L (Value c)\<rparr>)"
proof -
  have d: "DecodeCursor L s = Inr \<lparr>ID = normalizeJSONNumber L (ID c),
                                Value = normalizeJSONNumber L (Value c)\<rparr>"
    if "s \<noteq> []" "DecodeString s = Inr b" "json_Unmarshal b = Inr c" "ID c \<noteq> ANil"
    using that by (cases c) (simp add: DecodeCursor_def)
  show ?thesis
    using normalize_whole[of q L] normalize_not_whole[of q L] normalize_out_of_range[of q L]
      normalize_not_finite[of f L] normalize_other[of v L] d
    by blast
qed

theorem C2_normalization_witness:
  "(\<exists>i. normalizeJSONNumber amd64 (AFloat64 (Finite 12345)) = AInt64 i
        \<and> (of_int (sint i) :: rat) = 12345)
   \<and> normalizeJSONNumber amd64 (AFloat64 (Finite (3 / 2))) = AFloat64 (Finite (3 / 2))
   \<and> normalizeJSONNumber amd64 (AFloat64 NaN) = AFloat64 NaN
   \<and> normalizeJSONNumber amd64 (AString ''x'') = AString ''x''
   \<and> DecodeCursor amd64 ''eyJpZCI6MTIzNDUsInZhbHVlIjoxLjV9''
       = Inr \<lparr>ID = normalizeJSONNumber amd64 (AFloat64 (Finite 12345)),
              Value = normalizeJSONNumber amd64 (AFloat64 (Finite (3 / 2)))\<rparr>"
proof -
  have whole: "(12345 :: rat) \<in> \<int> \<and> round_float64 12345 = 12345
      \<and> - (2 ^ 63) \<le> (12345 :: rat) \<and> (12345 :: rat) < 2 ^ 63"
  proof -
    have "round_float64 12345 = 12345" by code_simp
    then show ?thesis by simp
  qed
  have frac: "(3 / 2 :: rat) \<notin> \<int>"
  proof
    assume "(3 / 2 :: rat) \<in> \<int>"
    then obtain n :: int where "(3 / 2 :: rat) = of_int n" by (auto elim: Ints_cases)
    then have "(of_int 3 :: rat) = of_int (2 * n)" by simp
    then have "(3 :: int) = 2 * n" unfolding of_int_eq_iff .
    then show False by presburger
  qed
  have tok: "''eyJpZCI6MTIzNDUsInZhbHVlIjoxLjV9'' \<noteq> []" "DecodeString ''eyJpZCI6MTIzNDUsInZhbHVlIjoxLjV9'' = Inr (''{'' @ [CHR 0x22] @ ''id'' @ [CHR 0x22] @ '':12345,'' @ [CHR 0x22] @ ''value'' @ [CHR 0x22] @ '':1.5}'')"
    "json_Unmarshal (''{'' @ [CHR 0x22] @ ''id'' @ [CHR 0x22] @ '':12345,'' @ [CHR 0x22] @ ''value'' @ [CHR 0x22] @ '':1.5}'')
       = Inr \<lparr>ID = AFloat64 (Finite 12345), Value = AFloat64 (Finite (3 / 2))\<rparr>"
    by code_simp+
  note T1 = C2_normalization[of 12345 amd64 NaN "AString ''x''" "''eyJpZCI6MTIzNDUsInZhbHVlIjoxLjV9''" "(''{'' @ [CHR 0x22] @ ''id'' @ [CHR 0x22] @ '':12345,'' @ [CHR 0x22] @ ''value'' @ [CHR 0x22] @ '':1.5}'')"
      "\<lparr>ID = AFloat64 (Finite 12345), Value = AFloat64 (Finite (3 / 2))\<rparr>"]
  note T2 = C2_normalization[of "3 / 2" amd64 NaN "AString ''x''" "[]" "[]"
      "\<lparr>ID = ANil, Value = ANil\<rparr>"]
  have a: "\<exists>i. normalizeJSONNumber amd64 (AFloat64 (Finite 12345)) = AInt64 i
        \<and> (of_int (sint i) :: rat) = 12345"
    using T1 whole by blast
  have b: "normalizeJSONNumber amd64 (AFloat64 (Finite (3 / 2))) = AFloat64 (Finite (3 / 2))"
    using T2 frac by blast
  have c: "normalizeJSONNumber amd64 (AFloat64 NaN) = AFloat64 NaN"
    using T1 by blast
  have d: "normalizeJSONNumber amd64 (AString ''x'') = AString ''x''"
    using T1 by blast
  have e: "DecodeCursor amd64 ''eyJpZCI6MTIzNDUsInZhbHVlIjoxLjV9''
       = Inr \<lparr>ID = normalizeJSONNumber amd64 (AFloat64 (Finite 12345)),
              Value = normalizeJSONNumber amd64 (AFloat64 (Finite (3 / 2)))\<rparr>"
    using T1 tok by simp
  show ?thesis using a b c d e by blast
qed

text \<open>
  The token of \<^verbatim>\<open>{"id":10000000000000000000}\<close>: the decoded ID holds the whole number
  \<open>10^19\<close>, which no \<^verbatim>\<open>int64\<close> equals, and \<^verbatim>\<open>DecodeCursor\<close> returns it as the
  \<^verbatim>\<open>float64\<close> it arrived as.
\<close>

theorem C2_counterexample:
  "DecodeCursor amd64 ''eyJpZCI6MTAwMDAwMDAwMDAwMDAwMDAwMDB9''
     = Inr \<lparr>ID = AFloat64 (Finite 10000000000000000000), Value = ANil\<rparr>
   \<and> (10000000000000000000 :: rat) \<in> \<int>"
proof -
  have "DecodeCursor amd64 ''eyJpZCI6MTAwMDAwMDAwMDAwMDAwMDAwMDB9''
     = Inr \<lparr>ID = AFloat64 (Finite 10000000000000000000), Value = ANil\<rparr>"
    by code_simp
  then show ?thesis by simp
qed

end
